theory Spec2Isabelle
  imports Complex_Main "HOL-Library.Word"
begin

section \<open>Data model (types.ts)\<close>

datatype MessageType = USER | MODEL

fun role_string :: "MessageType \<Rightarrow> string" where
  "role_string USER = ''user''"
| "role_string MODEL = ''model''"

record ChatMessage =
  msg_id :: string
  role :: MessageType
  msg_text :: string
  timestamp :: nat

section \<open>Transcript assembler (LivePracticeView.updateStreamingTranscript)\<close>

text \<open>Decimal rendering of a non-negative number, as JavaScript's string concatenation
  \<^verbatim>\<open>Date.now() + '-' + role\<close> produces it.\<close>

fun digit_char :: "nat \<Rightarrow> char" where
  "digit_char n = ''0123456789'' ! n"

fun number_string :: "nat \<Rightarrow> string" where
  "number_string n =
     (if n < 10 then [digit_char n] else number_string (n div 10) @ [digit_char (n mod 10)])"

declare number_string.simps [simp del]

text \<open>The updater passed to \<^verbatim>\<open>setConversation\<close>: \<open>prev\<close> is the conversation so far,
  \<open>now\<close> the reading of the clock (\<^verbatim>\<open>Date.now()\<close>, \<^verbatim>\<open>new Date()\<close>).\<close>

definition updateStreamingTranscript ::
  "nat \<Rightarrow> MessageType \<Rightarrow> string \<Rightarrow> ChatMessage list \<Rightarrow> ChatMessage list" where
  "updateStreamingTranscript now r textFragment prev =
     (if prev \<noteq> [] \<and> role (last prev) = r
      then butlast prev @ [(last prev)\<lparr>msg_text := msg_text (last prev) @ textFragment\<rparr>]
      else prev @ [\<lparr>msg_id = number_string now @ ''-'' @ role_string r,
                    role = r, msg_text = textFragment, timestamp = now\<rparr>])"

section \<open>Frame codec\<close>

subsection \<open>Platform primitives: typed arrays and base64\<close>

type_synonym byte = "8 word"
type_synonym int16 = "16 word"

text \<open>Exceptions: those of the platform that the engine can meet, and \<open>Thrown\<close> for any
  other exception with its message.\<close>

datatype js_error =
  InvalidCharacterError | RangeError | NotSupportedError | InvalidStateError | TypeError
  | Thrown string

text \<open>Storing a number into an \<^verbatim>\<open>Int16Array\<close> element applies ToInt16: the fraction is cut
  off towards zero and the integer is reduced modulo \<open>2 ^ 16\<close>; \<open>sint\<close> reads the element back.\<close>

definition js_trunc :: "real \<Rightarrow> int" where
  "js_trunc x = (if x < 0 then \<lceil>x\<rceil> else \<lfloor>x\<rfloor>)"

definition ToInt16 :: "real \<Rightarrow> int16" where
  "ToInt16 x = word_of_int (js_trunc x)"

text \<open>\<^verbatim>\<open>new Uint8Array(int16.buffer)\<close>: the two bytes of every element, low byte first (the
  byte order of the platforms the code runs on).\<close>

fun bytes_of_int16s :: "int16 list \<Rightarrow> byte list" where
  "bytes_of_int16s [] = []"
| "bytes_of_int16s (w # ws) =
     of_nat (unat w mod 256) # of_nat (unat w div 256) # bytes_of_int16s ws"

text \<open>\<^verbatim>\<open>new Int16Array(data.buffer)\<close> over a buffer of even length; the constructor
  raises a RangeError when the byte length is odd (see \<open>decodeAudioData\<close>).\<close>

fun int16s_of_bytes :: "byte list \<Rightarrow> int16 list" where
  "int16s_of_bytes (lo # hi # bs) = of_nat (unat lo + 256 * unat hi) # int16s_of_bytes bs"
| "int16s_of_bytes _ = []"

text \<open>The base64 alphabet: the character of a six-bit value, and the value of a character.\<close>

definition b64_char :: "nat \<Rightarrow> char" where
  "b64_char i =
     (if i < 26 then char_of (65 + i)
      else if i < 52 then char_of (71 + i)
      else if i < 62 then char_of (i - 4)
      else if i = 62 then CHR ''+'' else CHR ''/'')"

definition b64_value :: "char \<Rightarrow> nat option" where
  "b64_value c =
     (let n = (of_char c :: nat) in
      if 65 \<le> n \<and> n \<le> 90 then Some (n - 65)
      else if 97 \<le> n \<and> n \<le> 122 then Some (n - 71)
      else if 48 \<le> n \<and> n \<le> 57 then Some (n + 4)
      else if n = 43 then Some 62
      else if n = 47 then Some 63
      else None)"

fun b64_sextets :: "nat list \<Rightarrow> nat list" where
  "b64_sextets [] = []"
| "b64_sextets [a] = [a div 4, (a mod 4) * 16]"
| "b64_sextets [a, b] = [a div 4, (a mod 4) * 16 + b div 16, (b mod 16) * 4]"
| "b64_sextets (a # b # c # r) =
     [a div 4, (a mod 4) * 16 + b div 16, (b mod 16) * 4 + c div 64, c mod 64] @ b64_sextets r"

text \<open>\<^verbatim>\<open>btoa\<close> on a binary string (every character is one byte, which is what
  \<^verbatim>\<open>String.fromCharCode(bytes[i])\<close> builds): three bytes become four characters, and the last
  group is padded with \<open>=\<close>.\<close>

definition btoa :: "string \<Rightarrow> string" where
  "btoa binary =
     map b64_char (b64_sextets (map of_char binary))
       @ replicate ((3 - length binary mod 3) mod 3) (CHR ''='')"

text \<open>\<^verbatim>\<open>atob\<close> is the forgiving base64 decoding of the platform: ASCII whitespace is removed;
  when the length is then a multiple of four, one or two trailing \<open>=\<close> are removed; a length
  of \<open>1\<close> modulo \<open>4\<close> or a character outside the alphabet raises InvalidCharacterError;
  leftover bits of the last group are dropped.\<close>

definition ascii_whitespace :: "char \<Rightarrow> bool" where
  "ascii_whitespace c \<longleftrightarrow> (of_char c :: nat) \<in> {9, 10, 12, 13, 32}"

definition strip_padding :: "string \<Rightarrow> string" where
  "strip_padding d =
     (if length d mod 4 = 0 then
        (if 2 \<le> length d \<and> drop (length d - 2) d = ''==''  then take (length d - 2) d
         else if d \<noteq> [] \<and> last d = CHR ''='' then butlast d
         else d)
      else d)"

fun b64_bytes :: "nat list \<Rightarrow> nat list" where
  "b64_bytes (a # b # c # d # r) =
     [a * 4 + b div 16, (b mod 16) * 16 + c div 4, (c mod 4) * 64 + d] @ b64_bytes r"
| "b64_bytes [a, b, c] = [a * 4 + b div 16, (b mod 16) * 16 + c div 4]"
| "b64_bytes [a, b] = [a * 4 + b div 16]"
| "b64_bytes _ = []"

definition atob :: "string \<Rightarrow> js_error + string" where
  "atob data =
     (let d = strip_padding (filter (\<lambda>c. \<not> ascii_whitespace c) data) in
      if length d mod 4 = 1 then Inl InvalidCharacterError
      else if list_ex (\<lambda>c. b64_value c = None) d then Inl InvalidCharacterError
      else Inr (map char_of (b64_bytes (map (\<lambda>c. the (b64_value c)) d))))"

subsection \<open>Encoding (services/gemini.createBlob)\<close>

record Blob =
  blob_data :: string
  mimeType :: string

text \<open>Samples are taken as real numbers. On the \<^verbatim>\<open>Float32Array\<close> of the source every
  operation below is exact: the clipped sample has at most 24 significant bits and its
  product with \<open>0x8000\<close> or \<open>0x7FFF\<close> fits a double. A NaN sample (stored as \<open>0\<close>) is not
  modelled.\<close>

definition encode_sample :: "real \<Rightarrow> int16" where
  "encode_sample x =
     (let s = max (-1) (min 1 x) in ToInt16 (if s < 0 then s * 32768 else s * 32767))"

definition createBlob :: "real list \<Rightarrow> Blob" where
  "createBlob samples =
     (let int16 = map encode_sample samples;
          bytes = bytes_of_int16s int16;
          binary = map (\<lambda>b. char_of (unat b)) bytes
      in \<lparr>blob_data = btoa binary, mimeType = ''audio/pcm;rate=16000''\<rparr>)"

subsection \<open>Decoding (LivePracticeView.decode, LivePracticeView.decodeAudioData)\<close>

definition decode :: "string \<Rightarrow> js_error + byte list" where
  "decode base64 =
     (case atob base64 of
        Inl e \<Rightarrow> Inl e
      | Inr binaryString \<Rightarrow> Inr (map (\<lambda>c. of_nat (of_char c)) binaryString))"

record AudioBuffer =
  numberOfChannels :: nat
  buf_length :: nat
  sampleRate :: nat
  channelData :: "real list list"

definition duration :: "AudioBuffer \<Rightarrow> real" where
  "duration b = real (buf_length b) / real (sampleRate b)"

text \<open>\<^verbatim>\<open>ctx.createBuffer\<close> gives a buffer of silence, and raises NotSupportedError for no
  channel, no frame or a zero rate. The upper limits of an implementation are not modelled;
  the one call site asks for one channel at 24000 Hz.\<close>

definition createBuffer :: "nat \<Rightarrow> nat \<Rightarrow> nat \<Rightarrow> js_error + AudioBuffer" where
  "createBuffer numChannels len rate =
     (if numChannels = 0 \<or> len = 0 \<or> rate = 0 then Inl NotSupportedError
      else Inr \<lparr>numberOfChannels = numChannels, buf_length = len, sampleRate = rate,
                channelData = replicate numChannels (replicate len 0)\<rparr>)"

text \<open>\<open>frameCount\<close> is the quotient \<^verbatim>\<open>dataInt16.length / numChannels\<close> of JavaScript
  numbers. With a positive channel count it is \<open>\<le> 0\<close> exactly when there is no sample; with
  no channel it is infinite or NaN, the guard does not fire and \<^verbatim>\<open>createBuffer\<close> raises. A
  fractional count is cut down by \<^verbatim>\<open>createBuffer\<close>, and writes past the end of a channel are
  ignored, so each channel holds \<open>length div numChannels\<close> samples.\<close>

definition decodeAudioData :: "byte list \<Rightarrow> nat \<Rightarrow> nat \<Rightarrow> js_error + AudioBuffer" where
  "decodeAudioData data rate numChannels =
     (if odd (length data) then Inl RangeError
      else
        let dataInt16 = int16s_of_bytes data;
            n = length dataInt16
        in if numChannels \<noteq> 0 \<and> n = 0 then createBuffer numChannels 1 rate
           else
             (case createBuffer numChannels (n div numChannels) rate of
                Inl e \<Rightarrow> Inl e
              | Inr buffer \<Rightarrow>
                  Inr (buffer\<lparr>channelData :=
                    map (\<lambda>channel.
                           map (\<lambda>i. real_of_int (sint (dataInt16 ! (i * numChannels + channel))) / 32768)
                             [0 ..< n div numChannels])
                        [0 ..< numChannels]\<rparr>)))"

text \<open>The expression \<^verbatim>\<open>decodeAudioData(decode(base64), ctx, 24000, 1)\<close> of the message handler
  of LivePracticeView.connect: an exception of \<^verbatim>\<open>decode\<close> leaves before \<^verbatim>\<open>decodeAudioData\<close>
  is entered.\<close>

definition decodeInbound :: "string \<Rightarrow> js_error + AudioBuffer" where
  "decodeInbound base64 =
     (case decode base64 of Inl e \<Rightarrow> Inl e | Inr data \<Rightarrow> decodeAudioData data 24000 1)"

section \<open>Messages of the live session\<close>

datatype SignalLevel = SignalNone | Mild | Attention | Caution

datatype RiskTrend = Stable | Rising | Easing

record GuardianSignal =
  signal :: SignalLevel
  reason :: string
  gentle_hint :: "string option"
  confidence_note :: "string option"
  risk_trend :: RiskTrend
  suggested_action :: "string option"

record FunctionCall =
  fc_id :: string
  fc_name :: string
  fc_args :: GuardianSignal

text \<open>What the handlers read of a \<^verbatim>\<open>LiveServerMessage\<close>. A transcription is absent
  (\<open>None\<close>), or present with a text that may be undefined (\<open>Some None\<close>). \<open>audioData\<close> is
  \<^verbatim>\<open>serverContent?.modelTurn?.parts[0]?.inlineData?.data\<close>.\<close>

record LiveServerMessage =
  inputTranscription :: "string option option"
  outputTranscription :: "string option option"
  audioData :: "string option"
  interrupted :: bool
  turnComplete :: bool
  toolCall :: "FunctionCall list option"

section \<open>Conversational view (LivePracticeView)\<close>

subsection \<open>State\<close>

datatype ContextState = Running | Closed

datatype TrackState = Live | Ended

record PracticeFeedback =
  strengths :: "string list"
  improvements :: "string list"
  goal_alignment_score :: real
  clarity_score :: real
  empathy_score :: real
  confidence_score :: real
  coach_note :: string

record HistoryItem =
  date :: nat
  goal :: real
  confidence :: real

record Scenario =
  scenario_id :: string
  description :: string
  coachingGoal :: string

text \<open>A source node handed to the output device by \<^verbatim>\<open>source.start(when)\<close>.\<close>

record ScheduledSource =
  source_node :: nat
  start_at :: real
  source_buffer :: AudioBuffer

text \<open>The state of the component (\<^verbatim>\<open>useState\<close>), its references (\<^verbatim>\<open>useRef\<close>; an audio
  context reference holds the state of the context it points to), and what the component
  does to its surroundings: the track of the microphone stream that \<^verbatim>\<open>connect\<close> obtained,
  the calls of the transport (\<open>transportCloses\<close>, \<open>sentFrames\<close>), the sources started and
  stopped on the output device, the console, the rejections nobody handles, the transcripts
  handed to \<^verbatim>\<open>generatePracticeFeedback\<close>, and the practice history in local storage.\<close>

record LivePracticeView =
  isConnected :: bool
  status :: string
  conversation :: "ChatMessage list"
  isAiSpeaking :: bool
  isMuted :: bool
  feedback :: "PracticeFeedback option"
  isGeneratingFeedback :: bool
  feedbackError :: "string option"
  isMutedRef :: bool
  inputAudioContextRef :: "ContextState option"
  outputAudioContextRef :: "ContextState option"
  nextStartTimeRef :: real
  sourcesRef :: "nat list"
  sessionRef :: "unit option"
  isExplicitlyStoppedRef :: bool
  conversationRef :: "ChatMessage list"
  micTrack :: "TrackState option"
  transportCloses :: nat
  sentFrames :: "Blob list"
  started :: "ScheduledSource list"
  stoppedSources :: "nat list"
  console :: "string list"
  unhandled :: "js_error list"
  feedbackRequests :: "string list"
  practiceHistory :: "string \<Rightarrow> HistoryItem list"

text \<open>The component as mounted.\<close>

definition initialView :: LivePracticeView where
  "initialView =
     \<lparr>isConnected = False, status = ''Disconnected'', conversation = [], isAiSpeaking = False,
      isMuted = False, feedback = None, isGeneratingFeedback = False, feedbackError = None,
      isMutedRef = False, inputAudioContextRef = None, outputAudioContextRef = None,
      nextStartTimeRef = 0, sourcesRef = [], sessionRef = None, isExplicitlyStoppedRef = False,
      conversationRef = [], micTrack = None, transportCloses = 0, sentFrames = [], started = [],
      stoppedSources = [], console = [], unhandled = [], feedbackRequests = [],
      practiceHistory = (\<lambda>_. [])\<rparr>"

subsection \<open>Helpers\<close>

text \<open>\<^verbatim>\<open>AudioContext.close()\<close> rejects with InvalidStateError on a context that is closed.\<close>

fun close_context :: "ContextState \<Rightarrow> js_error + ContextState" where
  "close_context Running = Inr Closed"
| "close_context Closed = Inl InvalidStateError"

text \<open>\<^verbatim>\<open>if (ref.current) { try { await ref.current.close(); } catch {} }\<close>\<close>

definition close_quietly :: "ContextState option \<Rightarrow> ContextState option" where
  "close_quietly r =
     (case r of
        None \<Rightarrow> None
      | Some c \<Rightarrow> (case close_context c of Inl e \<Rightarrow> Some c | Inr c' \<Rightarrow> Some c'))"

text \<open>\<^verbatim>\<open>savePracticeSession\<close>: the item is pushed and the last ten are kept. Local storage is
  taken to hold well-formed history (a failure to parse or to store is caught and logged by
  the source).\<close>

definition savePracticeSession ::
  "string \<Rightarrow> PracticeFeedback \<Rightarrow> nat \<Rightarrow> (string \<Rightarrow> HistoryItem list) \<Rightarrow> (string \<Rightarrow> HistoryItem list)"
  where
  "savePracticeSession scenarioId d now history =
     (let items = history scenarioId
                    @ [\<lparr>date = now, goal = goal_alignment_score d, confidence = confidence_score d\<rparr>];
          kept = (if length items > 10 then drop (length items - 10) items else items)
      in history(scenarioId := kept))"

fun role_upper :: "MessageType \<Rightarrow> string" where
  "role_upper USER = ''USER''"
| "role_upper MODEL = ''MODEL''"

fun join_lines :: "string list \<Rightarrow> string" where
  "join_lines [] = []"
| "join_lines [x] = x"
| "join_lines (x # y # ys) = x @ [CHR 0x0A] @ join_lines (y # ys)"

definition transcriptText :: "ChatMessage list \<Rightarrow> string" where
  "transcriptText ms = join_lines (map (\<lambda>m. role_upper (role m) @ '': '' @ msg_text m) ms)"

text \<open>\<^verbatim>\<open>String.prototype.includes\<close>\<close>

fun str_includes :: "string \<Rightarrow> string \<Rightarrow> bool" where
  "str_includes [] sub = (sub = [])"
| "str_includes (c # cs) sub = (take (length sub) (c # cs) = sub \<or> str_includes cs sub)"

text \<open>\<^verbatim>\<open>e.message || dflt\<close>: an absent or empty message gives the default.\<close>

definition message_or :: "string \<Rightarrow> string \<Rightarrow> string" where
  "message_or msg dflt = (if msg = [] then dflt else msg)"

subsection \<open>Transcript\<close>

text \<open>\<^verbatim>\<open>updateStreamingTranscript\<close> applied to the conversation; the effect that mirrors the
  conversation into \<^verbatim>\<open>conversationRef\<close> runs with the render that follows.\<close>

definition streamTranscript :: "nat \<Rightarrow> MessageType \<Rightarrow> string \<Rightarrow> LivePracticeView \<Rightarrow> LivePracticeView" where
  "streamTranscript now r textFragment st =
     (let c = updateStreamingTranscript now r textFragment (conversation st)
      in st\<lparr>conversation := c, conversationRef := c\<rparr>)"

subsection \<open>Playback scheduler\<close>

text \<open>Line 402 of the message handler: the cursor is raised to the device time \<open>t\<close>
  (\<^verbatim>\<open>ctx.currentTime\<close>).\<close>

definition advanceCursor :: "real \<Rightarrow> LivePracticeView \<Rightarrow> LivePracticeView" where
  "advanceCursor t st = st\<lparr>nextStartTimeRef := max (nextStartTimeRef st) t\<rparr>"

text \<open>Lines 411 to 428: a fresh source node gets the buffer, the speaking flag is set, the
  source is started at the cursor, the cursor advances by the buffer's duration and the source
  joins the active set.\<close>

definition startSource :: "AudioBuffer \<Rightarrow> LivePracticeView \<Rightarrow> LivePracticeView" where
  "startSource audioBuffer st =
     (let source = length (started st)
      in st\<lparr>isAiSpeaking := True,
             started := started st
               @ [\<lparr>source_node = source, start_at = nextStartTimeRef st,
                    source_buffer = audioBuffer\<rparr>],
             nextStartTimeRef := nextStartTimeRef st + duration audioBuffer,
             sourcesRef := sourcesRef st @ [source]\<rparr>)"

text \<open>A decoded buffer delivered to the scheduler at device time \<open>t\<close>.\<close>

definition deliverBuffer :: "real \<Rightarrow> AudioBuffer \<Rightarrow> LivePracticeView \<Rightarrow> LivePracticeView" where
  "deliverBuffer t audioBuffer st = startSource audioBuffer (advanceCursor t st)"

text \<open>The audio part of the message handler. An exception of the decoder leaves the handler
  after the cursor was raised.\<close>

definition playAudio :: "real \<Rightarrow> string \<Rightarrow> LivePracticeView \<Rightarrow> LivePracticeView \<times> js_error option" where
  "playAudio t base64 st =
     (let st1 = advanceCursor t st
      in case decodeInbound base64 of
           Inl e \<Rightarrow> (st1, Some e)
         | Inr audioBuffer \<Rightarrow> (startSource audioBuffer st1, None))"

text \<open>The \<^verbatim>\<open>ended\<close> listener of a source.\<close>

definition onEnded :: "nat \<Rightarrow> real \<Rightarrow> LivePracticeView \<Rightarrow> LivePracticeView" where
  "onEnded source t st =
     (let st1 = st\<lparr>sourcesRef := removeAll source (sourcesRef st)\<rparr>
      in if sourcesRef st1 = [] \<and> t \<ge> nextStartTimeRef st1
         then st1\<lparr>isAiSpeaking := False\<rparr> else st1)"

text \<open>The interruption branch: every source of the active set is stopped and deleted, in the
  order of the set; then the cursor is reset and the speaking flag cleared.\<close>

definition stopAndDelete :: "LivePracticeView \<Rightarrow> nat \<Rightarrow> LivePracticeView" where
  "stopAndDelete st source =
     st\<lparr>stoppedSources := stoppedSources st @ [source],
        sourcesRef := removeAll source (sourcesRef st)\<rparr>"

definition handleInterrupted :: "LivePracticeView \<Rightarrow> LivePracticeView" where
  "handleInterrupted st =
     (foldl stopAndDelete st (sourcesRef st))\<lparr>nextStartTimeRef := 0, isAiSpeaking := False\<rparr>"

text \<open>The message handler of \<^verbatim>\<open>connect\<close>. It is an async function: an exception becomes a
  rejection that nobody handles, and the rest of the handler is not run.\<close>

definition onMessage :: "nat \<Rightarrow> real \<Rightarrow> LiveServerMessage \<Rightarrow> LivePracticeView \<Rightarrow> LivePracticeView" where
  "onMessage now t message st =
     (let st1 = (case inputTranscription message of
                   Some (Some txt) \<Rightarrow> if txt \<noteq> [] then streamTranscript now USER txt st else st
                 | _ \<Rightarrow> st);
          st2 = (case outputTranscription message of
                   Some (Some txt) \<Rightarrow> if txt \<noteq> [] then streamTranscript now MODEL txt st1 else st1
                 | _ \<Rightarrow> st1);
          (st3, raised) =
            (case audioData message of
               Some base64 \<Rightarrow>
                 if base64 \<noteq> [] \<and> outputAudioContextRef st2 \<noteq> None
                 then playAudio t base64 st2 else (st2, None)
             | None \<Rightarrow> (st2, None))
      in case raised of
           Some e \<Rightarrow> st3\<lparr>unhandled := unhandled st3 @ [e]\<rparr>
         | None \<Rightarrow> if interrupted message then handleInterrupted st3 else st3)"

subsection \<open>Capture gate\<close>

text \<open>The outcome of the connection promise, with the reason of a rejection.\<close>

datatype promise_state = Fulfilled | Rejected string

text \<open>\<^verbatim>\<open>scriptProcessor.onaudioprocess\<close>: \<open>sessionPromise\<close> is the outcome of the connection
  promise, \<open>inputData\<close> the captured block, \<open>t\<close> the time of the output device. A frame
  handed to \<^verbatim>\<open>session.sendRealtimeInput\<close> is recorded in \<open>sentFrames\<close>; what the transport
  then does with it is outside the view.\<close>

definition onaudioprocess ::
  "promise_state \<Rightarrow> real list \<Rightarrow> real \<Rightarrow> LivePracticeView \<Rightarrow> LivePracticeView" where
  "onaudioprocess sessionPromise inputData t st =
     (if isMutedRef st then st
      else if outputAudioContextRef st \<noteq> None \<and> nextStartTimeRef st > t then st
      else
        let pcmBlob = createBlob inputData
        in case sessionPromise of
             Fulfilled \<Rightarrow> st\<lparr>sessionRef := Some (), sentFrames := sentFrames st @ [pcmBlob]\<rparr>
           | Rejected e \<Rightarrow> st\<lparr>console := console st @ [''Session send error:'']\<rparr>)"

definition toggleMute :: "LivePracticeView \<Rightarrow> LivePracticeView" where
  "toggleMute st = (let newState = \<not> isMuted st in st\<lparr>isMuted := newState, isMutedRef := newState\<rparr>)"

subsection \<open>Session lifecycle\<close>

text \<open>What \<^verbatim>\<open>connect\<close> meets: an exception while the audio contexts are made and resumed, and
  a rejection of \<^verbatim>\<open>getUserMedia\<close>, each with its message.\<close>

record ConnectEnv =
  audioError :: "string option"
  micError :: "string option"

definition connect :: "ConnectEnv \<Rightarrow> LivePracticeView \<Rightarrow> LivePracticeView" where
  "connect env st =
     (let st0 = st\<lparr>status := ''Initializing Audio...'', feedback := None, feedbackError := None,
                    conversation := [], conversationRef := [], isAiSpeaking := False,
                    isMuted := False, isMutedRef := False, isExplicitlyStoppedRef := False\<rparr>
      in case audioError env of
           Some msg \<Rightarrow>
             st0\<lparr>console := console st0 @ [msg],
                 status := ''Error: '' @ message_or msg ''Unknown error occurred'',
                 isConnected := False\<rparr>
         | None \<Rightarrow>
             let st1 = st0\<lparr>inputAudioContextRef := Some Running,
                            outputAudioContextRef := Some Running,
                            status := ''Requesting Microphone...''\<rparr>
             in case micError env of
                  Some msg \<Rightarrow>
                    st1\<lparr>console := console st1 @ [msg],
                        status := ''Error: '' @ message_or msg ''Unknown error occurred'',
                        isConnected := False\<rparr>
                | None \<Rightarrow>
                    st1\<lparr>micTrack := Some Live, status := ''Connecting to Gemini Live...''\<rparr>)"

definition onOpen :: "LivePracticeView \<Rightarrow> LivePracticeView" where
  "onOpen st = st\<lparr>status := ''Connected'', isConnected := True\<rparr>"

definition onClose :: "LivePracticeView \<Rightarrow> LivePracticeView" where
  "onClose st =
     (let st1 = st\<lparr>isAiSpeaking := False, isConnected := False\<rparr>
      in if \<not> isExplicitlyStoppedRef st1
         then st1\<lparr>status := ''Connection Ended (Check Network). You can View Analysis.''\<rparr>
         else st1\<lparr>status := ''Disconnected''\<rparr>)"

definition onError :: "string \<Rightarrow> LivePracticeView \<Rightarrow> LivePracticeView" where
  "onError err st =
     (let msg0 = message_or err ''Connection Failed'';
          msg1 = (if str_includes msg0 ''Network''
                  then ''Network Error: Check internet connection.'' else msg0);
          msg2 = (if str_includes msg1 ''403'' then ''Access Denied: Check API Key.'' else msg1)
      in st\<lparr>console := console st @ [err], status := ''Error: '' @ msg2, isConnected := False\<rparr>)"

text \<open>\<^verbatim>\<open>sessionPromise.catch\<close>: the connection was not established.\<close>

definition onConnectRejected :: "string \<Rightarrow> LivePracticeView \<Rightarrow> LivePracticeView" where
  "onConnectRejected err st =
     st\<lparr>console := console st @ [''Initial Connection Error:''],
        status := ''Error: '' @ message_or err ''Failed to establish connection.'',
        isConnected := False\<rparr>"

text \<open>\<^verbatim>\<open>handleDisconnect\<close>, run to its end. \<open>generatePracticeFeedback\<close> is the feedback
  collaborator (its answer, or the message of its failure), \<open>selectedScenario\<close> the scenario
  in use and \<open>now\<close> the clock. \<open>transportCloses\<close> counts the calls of \<^verbatim>\<open>session.close()\<close>; an
  exception of that call is caught and logged by the source and is not modelled.\<close>

definition handleDisconnect ::
  "(string \<Rightarrow> string \<Rightarrow> string \<Rightarrow> string + PracticeFeedback) \<Rightarrow> Scenario \<Rightarrow> nat
     \<Rightarrow> LivePracticeView \<Rightarrow> LivePracticeView" where
  "handleDisconnect generatePracticeFeedback selectedScenario now st =
     (let st1 = st\<lparr>isExplicitlyStoppedRef := True\<rparr>;
          st2 = (case sessionRef st1 of
                   Some session \<Rightarrow>
                     st1\<lparr>transportCloses := Suc (transportCloses st1), sessionRef := None\<rparr>
                 | None \<Rightarrow> st1);
          st3 = st2\<lparr>inputAudioContextRef := close_quietly (inputAudioContextRef st2)\<rparr>;
          st4 = st3\<lparr>outputAudioContextRef := close_quietly (outputAudioContextRef st3)\<rparr>;
          currentTranscript = conversationRef st4
      in if length currentTranscript > 2 then
           let st5 = st4\<lparr>isGeneratingFeedback := True, isConnected := False,
                          isAiSpeaking := False, status := ''Analyzing Session...'',
                          feedbackRequests :=
                            feedbackRequests st4 @ [transcriptText currentTranscript]\<rparr>;
               st6 =
                 (case generatePracticeFeedback (transcriptText currentTranscript)
                         (coachingGoal selectedScenario) (description selectedScenario) of
                    Inr feedbackData \<Rightarrow>
                      st5\<lparr>feedback := Some feedbackData,
                          practiceHistory :=
                            savePracticeSession (scenario_id selectedScenario) feedbackData now
                              (practiceHistory st5),
                          status := ''Session Complete''\<rparr>
                  | Inl e \<Rightarrow>
                      st5\<lparr>console := console st5 @ [''Feedback generation failed''],
                          feedbackError := Some
                            ''Failed to analyze session. The conversation was saved above, but AI feedback is unavailable.'',
                          status := ''Session Complete (Error)''\<rparr>)
           in st6\<lparr>isGeneratingFeedback := False\<rparr>
         else st4\<lparr>isConnected := False, isAiSpeaking := False, status := ''Disconnected''\<rparr>)"

definition resetSession :: "LivePracticeView \<Rightarrow> LivePracticeView" where
  "resetSession st =
     st\<lparr>conversation := [], conversationRef := [], feedback := None, feedbackError := None,
        status := ''Disconnected''\<rparr>"

text \<open>The poll of the speaking state, every 200 ms while connected.\<close>

definition pollSpeaking :: "real \<Rightarrow> LivePracticeView \<Rightarrow> LivePracticeView" where
  "pollSpeaking t st =
     (if isConnected st \<and> outputAudioContextRef st \<noteq> None \<and> isAiSpeaking st
         \<and> t \<ge> nextStartTimeRef st \<and> sourcesRef st = []
      then st\<lparr>isAiSpeaking := False\<rparr> else st)"

text \<open>Everything the view reacts to, and the reaction.\<close>

datatype live_event =
    Connect ConnectEnv
  | Open
  | ConnectRejected string
  | Message nat real LiveServerMessage
  | AudioProcess promise_state "real list" real
  | SourceEnded nat real
  | Poll real
  | ToggleMute
  | TransportClose
  | TransportError string
  | Disconnect nat
  | Reset

fun live_step ::
  "(string \<Rightarrow> string \<Rightarrow> string \<Rightarrow> string + PracticeFeedback) \<Rightarrow> Scenario
     \<Rightarrow> LivePracticeView \<Rightarrow> live_event \<Rightarrow> LivePracticeView" where
  "live_step g sc st (Connect env) = connect env st"
| "live_step g sc st Open = onOpen st"
| "live_step g sc st (ConnectRejected err) = onConnectRejected err st"
| "live_step g sc st (Message now t m) = onMessage now t m st"
| "live_step g sc st (AudioProcess p d t) = onaudioprocess p d t st"
| "live_step g sc st (SourceEnded source t) = onEnded source t st"
| "live_step g sc st (Poll t) = pollSpeaking t st"
| "live_step g sc st ToggleMute = toggleMute st"
| "live_step g sc st TransportClose = onClose st"
| "live_step g sc st (TransportError err) = onError err st"
| "live_step g sc st (Disconnect now) = handleDisconnect g sc now st"
| "live_step g sc st Reset = resetSession st"

text \<open>A sequence of decoded buffers, each with the device time of its delivery, and a
  sequence of capture ticks.\<close>

definition deliverAll :: "(real \<times> AudioBuffer) list \<Rightarrow> LivePracticeView \<Rightarrow> LivePracticeView" where
  "deliverAll ds st = foldl (\<lambda>s (t, b). deliverBuffer t b s) st ds"

definition captureTicks ::
  "(promise_state \<times> real list \<times> real) list \<Rightarrow> LivePracticeView \<Rightarrow> LivePracticeView" where
  "captureTicks ticks st = foldl (\<lambda>s (p, d, t). onaudioprocess p d t s) st ticks"

section \<open>Silent monitor view (ConversationGuardianView)\<close>

record TranscriptEntry =
  entry_role :: string
  entry_text :: string
  entry_time :: string

text \<open>State, references and surroundings of the monitor view, as for the conversational
  view.\<close>

record GuardianView =
  g_isConnected :: bool
  g_status :: string
  guardianSignal :: "GuardianSignal option"
  transcript :: "TranscriptEntry list"
  g_inputAudioContextRef :: "ContextState option"
  g_sessionRef :: "unit option"
  isMonitoringRef :: bool
  g_micTrack :: "TrackState option"
  g_transportCloses :: nat
  g_sentFrames :: "Blob list"
  g_console :: "string list"
  g_unhandled :: "js_error list"

definition initialGuardian :: GuardianView where
  "initialGuardian =
     \<lparr>g_isConnected = False, g_status = ''Ready to Monitor'', guardianSignal = None,
      transcript = [], g_inputAudioContextRef = None, g_sessionRef = None,
      isMonitoringRef = False, g_micTrack = None, g_transportCloses = 0, g_sentFrames = [],
      g_console = [], g_unhandled = []\<rparr>"

definition startMonitoring :: "ConnectEnv \<Rightarrow> GuardianView \<Rightarrow> GuardianView" where
  "startMonitoring env st =
     (let st0 = st\<lparr>g_status := ''Connecting to Guardian...'', isMonitoringRef := True,
                    transcript := []\<rparr>
      in case audioError env of
           Some msg \<Rightarrow>
             st0\<lparr>g_console := g_console st0 @ [msg], g_status := ''Error: '' @ msg,
                 isMonitoringRef := False\<rparr>
         | None \<Rightarrow>
             let st1 = st0\<lparr>g_inputAudioContextRef := Some Running\<rparr>
             in case micError env of
                  Some msg \<Rightarrow>
                    st1\<lparr>g_console := g_console st1 @ [msg], g_status := ''Error: '' @ msg,
                        isMonitoringRef := False\<rparr>
                | None \<Rightarrow> st1\<lparr>g_micTrack := Some Live\<rparr>)"

definition g_onOpen :: "GuardianView \<Rightarrow> GuardianView" where
  "g_onOpen st =
     (if \<not> isMonitoringRef st then st
      else st\<lparr>g_isConnected := True, g_status := ''Monitoring...''\<rparr>)"

text \<open>The capture tick of the monitor. A rejected connection promise has no handler here.\<close>

definition g_onaudioprocess :: "promise_state \<Rightarrow> real list \<Rightarrow> GuardianView \<Rightarrow> GuardianView" where
  "g_onaudioprocess sessionPromise inputData st =
     (if \<not> isMonitoringRef st then st
      else
        let pcmBlob = createBlob inputData
        in case sessionPromise of
             Fulfilled \<Rightarrow> st\<lparr>g_sessionRef := Some (), g_sentFrames := g_sentFrames st @ [pcmBlob]\<rparr>
           | Rejected e \<Rightarrow> st\<lparr>g_unhandled := g_unhandled st @ [Thrown e]\<rparr>)"

fun signal_upper :: "SignalLevel \<Rightarrow> string" where
  "signal_upper SignalNone = ''NONE''"
| "signal_upper Mild = ''MILD''"
| "signal_upper Attention = ''ATTENTION''"
| "signal_upper Caution = ''CAUTION''"

text \<open>The status callback: the signal is shown and entered into the transcript as the
  model's turn. The arrow of the source text is written in its UTF-8 bytes.\<close>

definition g_onSignal :: "string \<Rightarrow> GuardianSignal \<Rightarrow> GuardianView \<Rightarrow> GuardianView" where
  "g_onSignal time sig st =
     (if isMonitoringRef st then
        let text0 = ''['' @ signal_upper (signal sig) @ ''] '' @ reason sig;
            text1 = (case suggested_action sig of
                       Some a \<Rightarrow>
                         if a \<noteq> []
                         then text0 @ '' '' @ [CHR 0xE2, CHR 0x86, CHR 0x92]
                                @ '' Suggestion: '' @ [CHR 0x22] @ a @ [CHR 0x22]
                         else text0
                     | None \<Rightarrow> text0)
        in st\<lparr>guardianSignal := Some sig,
               transcript := transcript st
                 @ [\<lparr>entry_role = ''model'', entry_text = text1, entry_time = time\<rparr>]\<rparr>
      else st)"

definition g_onTranscript :: "string \<Rightarrow> string \<Rightarrow> string \<Rightarrow> GuardianView \<Rightarrow> GuardianView" where
  "g_onTranscript r txt time st =
     st\<lparr>transcript := transcript st @ [\<lparr>entry_role = r, entry_text = txt, entry_time = time\<rparr>]\<rparr>"

definition g_onClose :: "GuardianView \<Rightarrow> GuardianView" where
  "g_onClose st =
     (let st1 = st\<lparr>g_isConnected := False\<rparr>
      in if isMonitoringRef st1
         then st1\<lparr>g_status := ''Connection Dropped. Transcript Saved.''\<rparr>
         else st1\<lparr>g_status := ''Disconnected''\<rparr>)"

definition g_onError :: "string \<Rightarrow> GuardianView \<Rightarrow> GuardianView" where
  "g_onError err st =
     (if \<not> isMonitoringRef st then st
      else
        let msg0 = message_or err ''Connection failed'';
            msg1 = (if str_includes msg0 ''403'' then ''Access Denied. Check API Key.'' else msg0)
        in st\<lparr>g_console := g_console st @ [err], g_status := ''Error: '' @ msg1,
               g_isConnected := False\<rparr>)"

text \<open>\<^verbatim>\<open>stopMonitoring\<close>. The promise of \<^verbatim>\<open>close()\<close> is not awaited, so the
  \<^verbatim>\<open>try\<close> around the call does not see its rejection.\<close>

definition stopMonitoring :: "GuardianView \<Rightarrow> GuardianView" where
  "stopMonitoring st =
     (let st1 = st\<lparr>isMonitoringRef := False\<rparr>;
          st2 = (case g_sessionRef st1 of
                   Some session \<Rightarrow>
                     st1\<lparr>g_transportCloses := Suc (g_transportCloses st1), g_sessionRef := None\<rparr>
                 | None \<Rightarrow> st1);
          st3 = (case g_inputAudioContextRef st2 of
                   Some c \<Rightarrow>
                     (case close_context c of
                        Inr c' \<Rightarrow> st2\<lparr>g_inputAudioContextRef := Some c'\<rparr>
                      | Inl e \<Rightarrow> st2\<lparr>g_unhandled := g_unhandled st2 @ [e]\<rparr>)
                 | None \<Rightarrow> st2)
      in st3\<lparr>g_isConnected := False, g_status := ''Stopped'', guardianSignal := None\<rparr>)"

datatype guardian_event =
    StartMonitoring ConnectEnv
  | GuardianOpen
  | GuardianAudioProcess promise_state "real list"
  | GuardianSignalUpdate string GuardianSignal
  | GuardianTranscript string string string
  | GuardianClose
  | GuardianError string
  | StopMonitoring

fun guardian_step :: "GuardianView \<Rightarrow> guardian_event \<Rightarrow> GuardianView" where
  "guardian_step st (StartMonitoring env) = startMonitoring env st"
| "guardian_step st GuardianOpen = g_onOpen st"
| "guardian_step st (GuardianAudioProcess p d) = g_onaudioprocess p d st"
| "guardian_step st (GuardianSignalUpdate time sig) = g_onSignal time sig st"
| "guardian_step st (GuardianTranscript r txt time) = g_onTranscript r txt time st"
| "guardian_step st GuardianClose = g_onClose st"
| "guardian_step st (GuardianError err) = g_onError err st"
| "guardian_step st StopMonitoring = stopMonitoring st"

section \<open>Tool-call handler (services/gemini.connectGuardian)\<close>

record FunctionResponse =
  fr_id :: string
  fr_name :: string
  fr_result :: string

text \<open>The closure of \<^verbatim>\<open>connectGuardian\<close>: its two accumulators, the state \<open>app\<close> of the
  application behind the callbacks, the calls of \<^verbatim>\<open>session.sendToolResponse\<close> in their
  order, the console, and the rejections that no handler takes.\<close>

record 'a GuardianSession =
  currentInputTrans :: string
  currentOutputTrans :: string
  app :: 'a
  toolResponses :: "FunctionResponse list"
  gs_console :: "string list"
  gs_unhandled :: "js_error list"

text \<open>\<^verbatim>\<open>session.sendToolResponse\<close> belongs to the transport, not to the repository. What a
  call of it does is a parameter of the handler: it throws, or it returns nothing (a send
  that is synchronous), or it returns a promise that is fulfilled (\<open>None\<close>) or rejected.\<close>

datatype send_outcome = SendThrows js_error | ReturnsUndefined | ReturnsPromise "js_error option"

text \<open>\<^verbatim>\<open>String.prototype.trim\<close> on a string of bytes.\<close>

definition js_whitespace :: "char \<Rightarrow> bool" where
  "js_whitespace c \<longleftrightarrow> (of_char c :: nat) \<in> {9, 10, 11, 12, 13, 32, 160}"

definition trim :: "string \<Rightarrow> string" where
  "trim s = rev (dropWhile js_whitespace (rev (dropWhile js_whitespace s)))"

text \<open>Appending a transcription whose text is undefined appends the word.\<close>

definition text_or_undefined :: "string option \<Rightarrow> string" where
  "text_or_undefined t = (case t of Some s \<Rightarrow> s | None \<Rightarrow> ''undefined'')"

definition appendTranscriptions :: "LiveServerMessage \<Rightarrow> 'a GuardianSession \<Rightarrow> 'a GuardianSession" where
  "appendTranscriptions message gs =
     (let gs1 = (case inputTranscription message of
                   Some t \<Rightarrow> gs\<lparr>currentInputTrans := currentInputTrans gs @ text_or_undefined t\<rparr>
                 | None \<Rightarrow> gs)
      in case outputTranscription message of
           Some t \<Rightarrow> gs1\<lparr>currentOutputTrans := currentOutputTrans gs1 @ text_or_undefined t\<rparr>
         | None \<Rightarrow> gs1)"

text \<open>A callback of the application returns the application's new state and the exception
  it raised, if any. The turn-complete branch: each non-blank accumulator is handed to
  \<open>onTranscript\<close> and then emptied.\<close>

definition flushTurn ::
  "(string \<Rightarrow> string \<Rightarrow> 'a \<Rightarrow> 'a \<times> js_error option) \<Rightarrow> 'a GuardianSession
     \<Rightarrow> 'a GuardianSession \<times> js_error option" where
  "flushTurn onTranscript gs =
     (let (gs1, raised) =
            (if trim (currentInputTrans gs) \<noteq> [] then
               (case onTranscript ''user'' (trim (currentInputTrans gs)) (app gs) of
                  (a, Some e) \<Rightarrow> (gs\<lparr>app := a\<rparr>, Some e)
                | (a, None) \<Rightarrow> (gs\<lparr>app := a, currentInputTrans := []\<rparr>, None))
             else (gs, None))
      in case raised of
           Some e \<Rightarrow> (gs1, Some e)
         | None \<Rightarrow>
             if trim (currentOutputTrans gs1) \<noteq> [] then
               (case onTranscript ''model'' (trim (currentOutputTrans gs1)) (app gs1) of
                  (a, Some e) \<Rightarrow> (gs1\<lparr>app := a\<rparr>, Some e)
                | (a, None) \<Rightarrow> (gs1\<lparr>app := a, currentOutputTrans := []\<rparr>, None))
             else (gs1, None))"

text \<open>The acknowledgement of a call, \<^verbatim>\<open>sessionPromise.then(session => \<dots>)\<close> on a session
  that is open: \<^verbatim>\<open>sendToolResponse\<close> is called once, with the identifier and the name of the
  call; \<open>sendToolResponse n\<close> is what the \<open>n\<close>-th call of the session does. \<^verbatim>\<open>.catch\<close> is then
  read from what the call returned. An exception of the call leaves the \<^verbatim>\<open>then\<close> callback,
  and so does the TypeError of reading \<^verbatim>\<open>.catch\<close> from nothing: the promise of \<^verbatim>\<open>then\<close> is
  rejected and nobody handles it. Only the rejection of a returned promise reaches the
  handler that logs.\<close>

definition acknowledge ::
  "(nat \<Rightarrow> send_outcome) \<Rightarrow> FunctionCall \<Rightarrow> 'a GuardianSession \<Rightarrow> 'a GuardianSession" where
  "acknowledge sendToolResponse fc gs =
     (let n = length (toolResponses gs);
          gs1 = gs\<lparr>toolResponses := toolResponses gs
                   @ [\<lparr>fr_id = fc_id fc, fr_name = fc_name fc, fr_result = ''acknowledged''\<rparr>]\<rparr>
      in case sendToolResponse n of
           SendThrows e \<Rightarrow> gs1\<lparr>gs_unhandled := gs_unhandled gs1 @ [e]\<rparr>
         | ReturnsUndefined \<Rightarrow> gs1\<lparr>gs_unhandled := gs_unhandled gs1 @ [TypeError]\<rparr>
         | ReturnsPromise None \<Rightarrow> gs1
         | ReturnsPromise (Some e) \<Rightarrow>
             gs1\<lparr>gs_console := gs_console gs1 @ [''Tool response send error'']\<rparr>)"

text \<open>The loop over \<^verbatim>\<open>message.toolCall.functionCalls\<close>. An exception of the callback leaves
  the loop and the handler.\<close>

fun handleToolCalls ::
  "(GuardianSignal \<Rightarrow> 'a \<Rightarrow> 'a \<times> js_error option) \<Rightarrow> (nat \<Rightarrow> send_outcome) \<Rightarrow> FunctionCall list
     \<Rightarrow> 'a GuardianSession \<Rightarrow> 'a GuardianSession \<times> js_error option" where
  "handleToolCalls onStatusUpdate sendToolResponse [] gs = (gs, None)"
| "handleToolCalls onStatusUpdate sendToolResponse (fc # fcs) gs =
     (if fc_name fc = ''update_guardian_status'' then
        (case onStatusUpdate (fc_args fc) (app gs) of
           (a, Some e) \<Rightarrow> (gs\<lparr>app := a\<rparr>, Some e)
         | (a, None) \<Rightarrow>
             handleToolCalls onStatusUpdate sendToolResponse fcs (acknowledge sendToolResponse fc (gs\<lparr>app := a\<rparr>)))
      else handleToolCalls onStatusUpdate sendToolResponse fcs gs)"

text \<open>The message handler of the monitor session: the session after the message, and the
  exception with which the handler ended, if any.\<close>

definition guardian_onmessage ::
  "(GuardianSignal \<Rightarrow> 'a \<Rightarrow> 'a \<times> js_error option)
     \<Rightarrow> (string \<Rightarrow> string \<Rightarrow> 'a \<Rightarrow> 'a \<times> js_error option) \<Rightarrow> (nat \<Rightarrow> send_outcome)
     \<Rightarrow> LiveServerMessage \<Rightarrow> 'a GuardianSession \<Rightarrow> 'a GuardianSession \<times> js_error option" where
  "guardian_onmessage onStatusUpdate onTranscript sendToolResponse message gs =
     (let gs1 = appendTranscriptions message gs;
          (gs2, raised) = (if turnComplete message then flushTurn onTranscript gs1 else (gs1, None))
      in case raised of
           Some e \<Rightarrow> (gs2, Some e)
         | None \<Rightarrow>
             (case toolCall message of
                Some functionCalls \<Rightarrow> handleToolCalls onStatusUpdate sendToolResponse functionCalls gs2
              | None \<Rightarrow> (gs2, None)))"

section \<open>Properties of the transcript assembler\<close>

text \<open>Claim C10. In role-switch flush mode a fragment whose role is the role of the open
  (last) message is appended to that message's text, and every earlier message stays as it is;
  a fragment with another role, or the first fragment, leaves all messages as they are and
  opens a new message holding the fragment. Feeding \<open>(user, Hel)\<close>, \<open>(user, lo)\<close>,
  \<open>(agent, Hi)\<close> to an empty conversation, at any clock readings, yields exactly the two
  messages \<open>user: Hello\<close> and \<open>agent: Hi\<close>.\<close>

theorem transcript_role_switch_flush:
  "(prev \<noteq> [] \<and> role (last prev) = r \<longrightarrow>
      updateStreamingTranscript now r frag prev =
        butlast prev @ [(last prev)\<lparr>msg_text := msg_text (last prev) @ frag\<rparr>])
   \<and> (prev = [] \<or> role (last prev) \<noteq> r \<longrightarrow>
      updateStreamingTranscript now r frag prev =
        prev @ [\<lparr>msg_id = number_string now @ ''-'' @ role_string r, role = r,
                 msg_text = frag, timestamp = now\<rparr>])
   \<and> map (\<lambda>m. (role m, msg_text m))
        (foldl (\<lambda>c (now, r, frag). updateStreamingTranscript now r frag c) []
           [(t1, USER, ''Hel''), (t2, USER, ''lo''), (t3, MODEL, ''Hi'')])
       = [(USER, ''Hello''), (MODEL, ''Hi'')]"
  by (simp add: updateStreamingTranscript_def)

text \<open>Both cases of C10 at concrete conversations.\<close>

theorem transcript_role_switch_flush_witness:
  "updateStreamingTranscript 9 USER ''lo''
      [\<lparr>msg_id = ''3-user'', role = USER, msg_text = ''Hel'', timestamp = 3\<rparr>]
     = [\<lparr>msg_id = ''3-user'', role = USER, msg_text = ''Hello'', timestamp = 3\<rparr>]
   \<and> updateStreamingTranscript 9 MODEL ''Hi''
      [\<lparr>msg_id = ''3-user'', role = USER, msg_text = ''Hello'', timestamp = 3\<rparr>]
     = [\<lparr>msg_id = ''3-user'', role = USER, msg_text = ''Hello'', timestamp = 3\<rparr>,
        \<lparr>msg_id = ''9-model'', role = MODEL, msg_text = ''Hi'', timestamp = 9\<rparr>]"
  using transcript_role_switch_flush
     [of "[\<lparr>msg_id = ''3-user'', role = USER, msg_text = ''Hel'', timestamp = 3\<rparr>]" USER 9 "''lo''"]
    transcript_role_switch_flush
     [of "[\<lparr>msg_id = ''3-user'', role = USER, msg_text = ''Hello'', timestamp = 3\<rparr>]" MODEL 9 "''Hi''"]
  by (simp add: number_string.simps)

section \<open>Properties of the frame codec\<close>

subsection \<open>Base64 and byte packing\<close>

lemma b64_value_char: "i < 64 \<Longrightarrow> b64_value (b64_char i) = Some i"
  unfolding b64_value_def b64_char_def Let_def
  by (auto simp: of_char_of [where ?'a = nat])

lemma b64_char_not_ws: "i < 64 \<Longrightarrow> \<not> ascii_whitespace (b64_char i)"
  unfolding ascii_whitespace_def b64_char_def
  by (auto simp: of_char_of [where ?'a = nat])

lemma b64_char_not_pad: "i < 64 \<Longrightarrow> b64_char i \<noteq> CHR ''=''"
  using b64_value_char [of i] by (auto simp: b64_value_def)

lemma b64_sextets_bound: "\<forall>x\<in>set xs. x < 256 \<Longrightarrow> \<forall>s\<in>set (b64_sextets xs). s < (64::nat)"
  by (induction xs rule: b64_sextets.induct) auto

lemma b64_bytes_sextets: "\<forall>x\<in>set xs. x < 256 \<Longrightarrow> b64_bytes (b64_sextets xs) = xs"
  by (induction xs rule: b64_sextets.induct) auto

lemma pad_not_ws: "\<not> ascii_whitespace (CHR ''='')"
  by (simp add: ascii_whitespace_def)

lemma mod3_step: "(Suc (Suc (Suc n))) mod 3 = n mod 3"
  by presburger

lemma b64_padded_length:
  "(length (b64_sextets xs) + (3 - length xs mod 3) mod 3) mod 4 = 0"
  by (induction xs rule: b64_sextets.induct) (simp_all add: mod3_step)

lemma b64_sextets_length_mod: "length (b64_sextets xs) mod 4 \<noteq> 1"
  by (induction xs rule: b64_sextets.induct) simp_all

lemma b64_sextets_Nil: "b64_sextets xs = [] \<longleftrightarrow> xs = []"
  by (cases xs rule: b64_sextets.cases) simp_all

lemma strip_padding_btoa:
  assumes "p < 3" "(length q + p) mod 4 = 0" "q = [] \<or> last q \<noteq> CHR ''=''"
    "p = 2 \<longrightarrow> q \<noteq> []" "p = 1 \<longrightarrow> q \<noteq> []"
  shows "strip_padding (q @ replicate p (CHR ''='')) = q"
proof -
  consider "p = 0" | "p = 1" | "p = 2" using assms(1) by linarith
  then show ?thesis
  proof cases
    case 1
    then show ?thesis using assms
      by (cases q rule: rev_cases) (auto simp: strip_padding_def)
  next
    case 2
    then show ?thesis using assms
      by (cases q rule: rev_cases) (auto simp: strip_padding_def butlast_append)
  next
    case 3
    then have r: "replicate p (CHR ''='') = ''==''" by (simp add: numeral_2_eq_2)
    show ?thesis using assms 3 unfolding r
      by (auto simp: strip_padding_def)
  qed
qed

lemma atob_btoa: "atob (btoa s) = Inr s"
proof -
  let ?xs = "map of_char s :: nat list"
  let ?q = "map b64_char (b64_sextets ?xs)"
  let ?p = "(3 - length s mod 3) mod 3"
  have xs: "\<forall>x\<in>set ?xs. x < 256" by auto
  have six: "\<And>i. i \<in> set (b64_sextets ?xs) \<Longrightarrow> i < 64"
    using b64_sextets_bound [OF xs] by blast
  have nows: "filter (\<lambda>c. \<not> ascii_whitespace c) (btoa s) = btoa s"
  proof (rule filter_True, rule ballI)
    fix c assume "c \<in> set (btoa s)"
    then consider "c = CHR ''=''" | i where "i \<in> set (b64_sextets ?xs)" "c = b64_char i"
      unfolding btoa_def by auto
    then show "\<not> ascii_whitespace c"
    proof cases
      case 1
      then show ?thesis by (simp only: pad_not_ws not_False_eq_True)
    next
      case 2
      then show ?thesis using six [of i] b64_char_not_ws [of i] by simp
    qed
  qed
  have l4: "(length ?q + ?p) mod 4 = 0"
    using b64_padded_length [of ?xs] by simp
  have lastq: "?q = [] \<or> last ?q \<noteq> CHR ''=''"
  proof (cases "?q = []")
    case False
    then have "last ?q \<in> set ?q" by (rule last_in_set)
    then obtain i where "i \<in> set (b64_sextets ?xs)" "last ?q = b64_char i" by auto
    then show ?thesis using six [of i] b64_char_not_pad [of i] by simp
  qed simp
  have ne: "?p \<noteq> 0 \<longrightarrow> ?q \<noteq> []"
    by (cases "s = []") (simp_all add: b64_sextets_Nil)
  have strip: "strip_padding (?q @ replicate ?p (CHR ''='')) = ?q"
  proof (rule strip_padding_btoa)
    show "?p < 3" by simp
    show "(length ?q + ?p) mod 4 = 0" by (rule l4)
    show "?q = [] \<or> last ?q \<noteq> CHR ''=''" by (rule lastq)
    show "?p = 2 \<longrightarrow> ?q \<noteq> []" using ne by simp
    show "?p = 1 \<longrightarrow> ?q \<noteq> []" using ne by simp
  qed
  have qlen: "length ?q mod 4 \<noteq> 1"
    using b64_sextets_length_mod [of ?xs] by simp
  have vals: "map (\<lambda>c. the (b64_value c)) ?q = b64_sextets ?xs"
    unfolding map_map comp_def
    by (rule map_idI) (simp add: six b64_value_char)
  have noinv: "\<not> list_ex (\<lambda>c. b64_value c = None) ?q"
    unfolding list_ex_iff using six b64_value_char by fastforce
  have rt: "map char_of (b64_bytes (b64_sextets ?xs)) = s"
    unfolding b64_bytes_sextets [OF xs] map_map comp_def
    by (rule map_idI) simp
  show ?thesis
    unfolding atob_def nows unfolding btoa_def strip Let_def
    using qlen noinv by (simp only: vals rt if_False)
qed

lemma length_bytes_of_int16s: "length (bytes_of_int16s ws) = 2 * length ws"
  by (induction ws) auto

lemma int16_split: "(of_nat (unat (of_nat (unat w mod 256) :: byte) + 256 * unat (of_nat (unat w div 256) :: byte)) :: int16) = w"
proof -
  have b: "unat w < 65536" using unsigned_less [of w, where ?'a = nat] by simp
  have 1: "unat (of_nat (unat w mod 256) :: byte) = unat w mod 256"
    by (simp add: unat_of_nat)
  have 2: "unat (of_nat (unat w div 256) :: byte) = unat w div 256"
    using b by (simp add: unat_of_nat)
  show ?thesis unfolding 1 2 by simp
qed

lemma int16s_of_bytes_of_int16s: "int16s_of_bytes (bytes_of_int16s ws) = ws"
  by (induction ws) (simp_all only: bytes_of_int16s.simps int16s_of_bytes.simps int16_split)

lemma byte_char_byte: "(of_nat (of_char (char_of (unat (b :: byte)))) :: byte) = b"
proof -
  have "unat b < 256" using unsigned_less [of b, where ?'a = nat] by simp
  then show ?thesis by (simp add: of_char_of [where ?'a = nat])
qed

lemma bytes_of_binary:
  "map (\<lambda>c. of_nat (of_char c) :: byte) (map (\<lambda>b. char_of (unat b)) bs) = bs"
  by (induction bs) (simp_all only: list.map byte_char_byte)

lemma decode_createBlob:
  "decode (blob_data (createBlob samples)) = Inr (bytes_of_int16s (map encode_sample samples))"
  unfolding decode_def createBlob_def Let_def
  by (simp only: Blob.simps atob_btoa sum.case bytes_of_binary)

subsection \<open>Quantisation\<close>

lemma js_trunc_bounds_neg: "x < 0 \<Longrightarrow> x \<le> real_of_int (js_trunc x) \<and> real_of_int (js_trunc x) < x + 1"
  unfolding js_trunc_def by (simp add: ceiling_correct) linarith

lemma js_trunc_bounds_pos: "0 \<le> x \<Longrightarrow> x - 1 < real_of_int (js_trunc x) \<and> real_of_int (js_trunc x) \<le> x"
  unfolding js_trunc_def by simp

lemma sint_ToInt16: "- 32768 \<le> x \<Longrightarrow> x < 32768 \<Longrightarrow> sint (ToInt16 x) = js_trunc x"
proof -
  assume a: "- 32768 \<le> x" "x < 32768"
  have "- 32768 \<le> js_trunc x \<and> js_trunc x < 32768"
    unfolding js_trunc_def using a by (auto simp: le_ceiling_iff floor_less_iff ceiling_less_iff le_floor_iff) 
  then show ?thesis
    unfolding ToInt16_def by (simp add: sint_sbintrunc' signed_take_bit_int_eq_self)
qed

lemma decoded_neg:
  assumes "- 1 \<le> s" "s < 0"
  shows "0 \<le> real_of_int (sint (encode_sample s)) / 32768 - s"
    and "real_of_int (sint (encode_sample s)) / 32768 - s < 1 / 32768"
proof -
  have e: "sint (encode_sample s) = js_trunc (s * 32768)"
    unfolding encode_sample_def Let_def using assms by (simp add: sint_ToInt16)
  have "s * 32768 < 0" using assms by simp
  from js_trunc_bounds_neg [OF this] show "0 \<le> real_of_int (sint (encode_sample s)) / 32768 - s"
    and "real_of_int (sint (encode_sample s)) / 32768 - s < 1 / 32768"
    unfolding e by (simp_all add: field_simps)
qed

lemma decoded_nonneg:
  assumes "0 \<le> s" "s \<le> 1"
  shows "s / 32768 \<le> s - real_of_int (sint (encode_sample s)) / 32768"
    and "s - real_of_int (sint (encode_sample s)) / 32768 < (s + 1) / 32768"
proof -
  have e: "sint (encode_sample s) = js_trunc (s * 32767)"
    unfolding encode_sample_def Let_def using assms by (simp add: sint_ToInt16)
  have "0 \<le> s * 32767" using assms by simp
  from js_trunc_bounds_pos [OF this] show "s / 32768 \<le> s - real_of_int (sint (encode_sample s)) / 32768"
    and "s - real_of_int (sint (encode_sample s)) / 32768 < (s + 1) / 32768"
    unfolding e by (simp_all add: field_simps)
qed

lemma decodeAudioData_mono:
  assumes "ws \<noteq> []" "rate \<noteq> 0"
  shows "decodeAudioData (bytes_of_int16s ws) rate 1 =
    Inr \<lparr>numberOfChannels = 1, buf_length = length ws, sampleRate = rate,
         channelData = [map (\<lambda>w. real_of_int (sint w) / 32768) ws]\<rparr>"
proof -
  have m: "map (\<lambda>i. real_of_int (sint (ws ! i)) / 32768) [0..<length ws] = map (\<lambda>w. real_of_int (sint w) / 32768) ws"
    by (rule nth_equalityI) simp_all
  show ?thesis
    unfolding decodeAudioData_def
    using assms
    by (simp add: length_bytes_of_int16s int16s_of_bytes_of_int16s createBuffer_def Let_def)
      (rule nth_equalityI, simp_all)
qed


subsection \<open>Round trip\<close>

text \<open>Encoding a non-empty block of samples and decoding the blob gives one channel that holds,
  for every sample, its 16-bit value divided by 32768; an empty block comes back as one silent
  frame.\<close>

lemma roundtrip_channel:
  assumes "samples \<noteq> []"
  shows "decodeInbound (blob_data (createBlob samples)) =
    Inr \<lparr>numberOfChannels = 1, buf_length = length samples, sampleRate = 24000,
         channelData = [map (\<lambda>s. real_of_int (sint (encode_sample s)) / 32768) samples]\<rparr>"
proof -
  have ne: "map encode_sample samples \<noteq> []" using assms by simp
  have r: "(24000::nat) \<noteq> 0" by simp
  show ?thesis
    unfolding decodeInbound_def decode_createBlob
    by (simp only: sum.case decodeAudioData_mono [OF ne r] length_map map_map comp_def)
qed

text \<open>Claim C5 fails as stated: the sample \<open>65535 / 65536\<close> (a \<^verbatim>\<open>Float32\<close> value) is encoded
  as \<open>32766\<close> and decoded as \<open>32766 / 32768\<close>, one and a half quantisation steps below it.\<close>

theorem codec_roundtrip_counterexample:
  "decodeInbound (blob_data (createBlob [65535 / 65536])) =
     Inr \<lparr>numberOfChannels = 1, buf_length = 1, sampleRate = 24000,
          channelData = [[16383 / 16384]]\<rparr>
   \<and> \<not> \<bar>16383 / 16384 - 65535 / 65536\<bar> \<le> (1 / 32768 :: real)"
proof -
  have e: "sint (encode_sample (65535 / 65536)) = 32766"
    by (simp add: encode_sample_def ToInt16_def js_trunc_def)
  have ne: "[65535 / 65536 :: real] \<noteq> []" by simp
  show ?thesis
    unfolding roundtrip_channel [OF ne] list.map e by simp
qed

lemma roundtrip_empty:
  "decodeInbound (blob_data (createBlob [])) =
     Inr \<lparr>numberOfChannels = 1, buf_length = 1, sampleRate = 24000, channelData = [[0]]\<rparr>"
  by (simp add: decodeInbound_def decode_def createBlob_def btoa_def atob_def strip_padding_def
      decodeAudioData_def createBuffer_def)

text \<open>Claim C5, amended. For every block of samples in \<open>[-1, 1]\<close>, where encoding clips,
  scales a negative value by 32768 and a non-negative one by 32767 into signed 16-bit
  little-endian and decoding divides by 32768, the round trip returns one channel with a frame
  for every sample (and one silent frame for an empty block), and each decoded sample is within
  less than two quantisation steps of the original: a negative sample comes back at most one
  step (exclusive) above itself, a non-negative sample \<open>s\<close> comes back below itself by less than
  \<open>(1 + s) / 32768\<close>.\<close>

theorem codec_roundtrip_two_steps:
  assumes "\<forall>s\<in>set samples. - 1 \<le> s \<and> s \<le> 1"
  shows "\<exists>buf out. decodeInbound (blob_data (createBlob samples)) = Inr buf
           \<and> channelData buf = [out] \<and> length out = max 1 (length samples)
           \<and> (\<forall>i<length samples.
                 (samples ! i < 0 \<longrightarrow> 0 \<le> out ! i - samples ! i \<and> out ! i - samples ! i < 1 / 32768)
               \<and> (0 \<le> samples ! i \<longrightarrow> 0 \<le> samples ! i - out ! i
                      \<and> samples ! i - out ! i < (1 + samples ! i) / 32768)
               \<and> \<bar>out ! i - samples ! i\<bar> < 2 / 32768)"
proof (cases "samples = []")
  case True
  show ?thesis unfolding True roundtrip_empty by simp
next
  case False
  let ?out = "map (\<lambda>s. real_of_int (sint (encode_sample s)) / 32768) samples"
  have step: "(samples ! i < 0 \<longrightarrow> 0 \<le> ?out ! i - samples ! i \<and> ?out ! i - samples ! i < 1 / 32768)
      \<and> (0 \<le> samples ! i \<longrightarrow> 0 \<le> samples ! i - ?out ! i
            \<and> samples ! i - ?out ! i < (1 + samples ! i) / 32768)
      \<and> \<bar>?out ! i - samples ! i\<bar> < 2 / 32768" if i: "i < length samples" for i
  proof -
    let ?s = "samples ! i"
    have o: "?out ! i = real_of_int (sint (encode_sample ?s)) / 32768" using i by simp
    have b: "- 1 \<le> ?s" "?s \<le> 1" using assms i by auto
    show ?thesis
    proof (cases "?s < 0")
      case True
      from decoded_neg [OF b(1) True] show ?thesis unfolding o using True by simp
    next
      case False
      then have nn: "0 \<le> ?s" by simp
      from decoded_nonneg [OF nn b(2)] show ?thesis unfolding o using nn b(2)
        by (simp add: field_simps)
    qed
  qed
  have len: "max 1 (length samples) = length samples" using False by (cases samples) simp_all
  show ?thesis
    unfolding roundtrip_channel [OF False] len
    by (intro exI [of _ "\<lparr>numberOfChannels = 1, buf_length = length samples, sampleRate = 24000,
         channelData = [?out]\<rparr>"] exI [of _ ?out]) (use step in simp)
qed

text \<open>The amended C5 at the block \<open>[1/2, -1]\<close>.\<close>

theorem codec_roundtrip_two_steps_witness:
  "(- 1 \<le> (1 / 2 :: real) \<and> (1 / 2 :: real) \<le> 1)
   \<and> (- 1 \<le> (- 1 :: real) \<and> (- 1 :: real) \<le> 1)
   \<and> (\<exists>buf out. decodeInbound (blob_data (createBlob [1 / 2, - 1])) = Inr buf
           \<and> channelData buf = [out] \<and> length out = 2
           \<and> \<bar>out ! 0 - 1 / 2\<bar> < 2 / 32768 \<and> \<bar>out ! 1 - (- 1)\<bar> < 2 / 32768)"
proof -
  have h: "\<forall>s\<in>set [1 / 2, - 1 :: real]. - 1 \<le> s \<and> s \<le> 1" by simp
  from codec_roundtrip_two_steps [OF h] obtain buf out where
    d: "decodeInbound (blob_data (createBlob [1 / 2, - 1])) = Inr buf"
      "channelData buf = [out]" "length out = max 1 (length [1 / 2, - 1 :: real])"
    and e: "\<forall>i<length [1 / 2, - 1 :: real]. \<bar>out ! i - [1 / 2, - 1] ! i\<bar> < 2 / 32768"
    by blast
  from e have "\<bar>out ! 0 - 1 / 2\<bar> < 2 / 32768" by fastforce
  moreover from e have "\<bar>out ! 1 - (- 1)\<bar> < 2 / 32768" by fastforce
  ultimately show ?thesis using d by auto
qed

subsection \<open>Failures of decoding\<close>

text \<open>Claim C6 fails as stated: the payload \<open>QQ==\<close> is valid base64 for a single byte, and
  \<^verbatim>\<open>new Int16Array\<close> raises a RangeError on it; the payload \<open>!\<close> is no base64, and
  \<^verbatim>\<open>atob\<close> raises.\<close>

theorem decode_raises_counterexample:
  "decodeInbound ''QQ=='' = Inl RangeError \<and> decodeInbound ''!'' = Inl InvalidCharacterError"
  by (simp add: decodeInbound_def decode_def atob_def strip_padding_def ascii_whitespace_def
      b64_value_def decodeAudioData_def)

lemma length_int16s_of_bytes: "length (int16s_of_bytes bs) = length bs div 2"
  by (induction bs rule: int16s_of_bytes.induct) simp_all

text \<open>Claim C6, amended. When the payload is base64 that \<^verbatim>\<open>atob\<close> accepts and holds an even
  number of bytes, decoding raises nothing and returns a one-channel buffer with one frame per
  pair of bytes; when the frame count is zero, a single silent buffer of one frame is returned
  (for any positive channel count and rate). A payload that \<^verbatim>\<open>atob\<close> rejects raises the
  exception of \<^verbatim>\<open>atob\<close>, and an odd number of bytes raises a RangeError.\<close>

theorem decodeInbound_wellformed:
  "(atob base64 = Inr binary \<and> even (length binary) \<longrightarrow>
      (\<exists>buf. decodeInbound base64 = Inr buf \<and> numberOfChannels buf = 1
         \<and> buf_length buf = max 1 (length binary div 2)
         \<and> (binary = [] \<longrightarrow> channelData buf = [[0]])))
   \<and> (numChannels \<noteq> 0 \<and> rate \<noteq> 0 \<longrightarrow>
        decodeAudioData [] rate numChannels =
          Inr \<lparr>numberOfChannels = numChannels, buf_length = 1, sampleRate = rate,
               channelData = replicate numChannels [0]\<rparr>)
   \<and> (atob base64 = Inl e \<longrightarrow> decodeInbound base64 = Inl e)
   \<and> (atob base64 = Inr binary \<and> odd (length binary) \<longrightarrow>
        decodeInbound base64 = Inl RangeError)"
proof (intro conjI impI)
  assume a: "atob base64 = Inr binary \<and> even (length binary)"
  let ?data = "map (\<lambda>c. of_nat (of_char c) :: byte) binary"
  have d: "decode base64 = Inr ?data" using a by (simp add: decode_def)
  show "\<exists>buf. decodeInbound base64 = Inr buf \<and> numberOfChannels buf = 1
         \<and> buf_length buf = max 1 (length binary div 2)
         \<and> (binary = [] \<longrightarrow> channelData buf = [[0]])"
  proof (cases "length binary div 2 = 0")
    case True
    with a have "binary = []" by (cases binary) auto
    then show ?thesis
      by (simp add: decodeInbound_def d decodeAudioData_def createBuffer_def)
  next
    case False
    have n: "length (int16s_of_bytes ?data) = length binary div 2"
      by (simp add: length_int16s_of_bytes)
    with False have ne: "int16s_of_bytes ?data \<noteq> []" by auto
    from False have "binary \<noteq> []" by auto
    with False a n ne show ?thesis
      by (simp add: decodeInbound_def d decodeAudioData_def createBuffer_def Let_def)
  qed
next
  assume "numChannels \<noteq> 0 \<and> rate \<noteq> 0"
  then show "decodeAudioData [] rate numChannels =
          Inr \<lparr>numberOfChannels = numChannels, buf_length = 1, sampleRate = rate,
               channelData = replicate numChannels [0]\<rparr>"
    by (simp add: decodeAudioData_def createBuffer_def)
next
  assume "atob base64 = Inl e"
  then show "decodeInbound base64 = Inl e" by (simp add: decodeInbound_def decode_def)
next
  assume "atob base64 = Inr binary \<and> odd (length binary)"
  then show "decodeInbound base64 = Inl RangeError"
    by (simp add: decodeInbound_def decode_def decodeAudioData_def)
qed

text \<open>The amended C6 at a payload of one blank, which decodes to no byte at all.\<close>

theorem decodeInbound_wellformed_witness:
  "atob '' '' = Inr [] \<and> even (length ([] :: string))
   \<and> (\<exists>buf. decodeInbound '' '' = Inr buf \<and> numberOfChannels buf = 1
         \<and> buf_length buf = 1 \<and> channelData buf = [[0]])
   \<and> decodeAudioData [] 24000 1 =
          Inr \<lparr>numberOfChannels = 1, buf_length = 1, sampleRate = 24000,
               channelData = [[0]]\<rparr>"
proof -
  have h: "atob '' '' = Inr []"
    by (simp add: atob_def strip_padding_def ascii_whitespace_def)
  show ?thesis
    using h decodeInbound_wellformed [of "'' ''" "[]" 1 24000] by simp
qed

section \<open>Properties of the playback scheduler\<close>

lemma duration_nonneg: "0 \<le> duration b"
  by (simp add: duration_def)

lemma deliverBuffer_started:
  "started (deliverBuffer t b s) =
     started s @ [\<lparr>source_node = length (started s), start_at = max (nextStartTimeRef s) t,
                   source_buffer = b\<rparr>]"
  by (simp add: deliverBuffer_def startSource_def advanceCursor_def Let_def)

lemma deliverBuffer_cursor:
  "nextStartTimeRef (deliverBuffer t b s) = max (nextStartTimeRef s) t + duration b"
  by (simp add: deliverBuffer_def startSource_def advanceCursor_def Let_def)

lemma deliverAll_snoc: "deliverAll (ds @ [(t, b)]) st = deliverBuffer t b (deliverAll ds st)"
  by (simp add: deliverAll_def)

lemma deliverAll_Nil: "deliverAll [] st = st"
  by (simp add: deliverAll_def)

lemma length_started_deliverAll:
  "length (started (deliverAll ds st)) = length (started st) + length ds"
proof (induction ds rule: rev_induct)
  case Nil
  show ?case by (simp add: deliverAll_Nil)
next
  case (snoc x ds)
  obtain t b where x: "x = (t, b)" by (cases x)
  show ?case unfolding x deliverAll_snoc deliverBuffer_started using snoc by simp
qed

lemma deliverAll_unit:
  "i < length ds \<Longrightarrow>
     started (deliverAll ds st) ! (length (started st) + i) =
       \<lparr>source_node = length (started st) + i,
        start_at = max (nextStartTimeRef (deliverAll (take i ds) st)) (fst (ds ! i)),
        source_buffer = snd (ds ! i)\<rparr>"
proof (induction ds rule: rev_induct)
  case Nil
  then show ?case by simp
next
  case (snoc x ds)
  obtain t b where x: "x = (t, b)" by (cases x)
  show ?case
  proof (cases "i < length ds")
    case True
    then have "started (deliverAll (ds @ [x]) st) ! (length (started st) + i)
        = started (deliverAll ds st) ! (length (started st) + i)"
      unfolding x deliverAll_snoc deliverBuffer_started
      by (simp add: nth_append length_started_deliverAll)
    with True snoc.IH show ?thesis by (simp add: nth_append)
  next
    case False
    with snoc.prems have i: "i = length ds" by simp
    show ?thesis
      unfolding x deliverAll_snoc deliverBuffer_started i
      by (simp add: nth_append length_started_deliverAll)
  qed
qed

lemma deliverAll_cursor_step:
  "i < length ds \<Longrightarrow>
     nextStartTimeRef (deliverAll (take (Suc i) ds) st) =
       max (nextStartTimeRef (deliverAll (take i ds) st)) (fst (ds ! i)) + duration (snd (ds ! i))"
proof -
  assume i: "i < length ds"
  have "take (Suc i) ds = take i ds @ [(fst (ds ! i), snd (ds ! i))]"
    using i by (simp add: take_Suc_conv_app_nth)
  then show ?thesis by (simp only: deliverAll_snoc deliverBuffer_cursor)
qed

lemma deliverAll_cursor_mono_step:
  "nextStartTimeRef (deliverAll (take i ds) st) \<le> nextStartTimeRef (deliverAll (take (Suc i) ds) st)"
proof (cases "i < length ds")
  case True
  show ?thesis
    unfolding deliverAll_cursor_step [OF True]
    using duration_nonneg [of "snd (ds ! i)"] by linarith
next
  case False
  then show ?thesis by simp
qed

lemma deliverAll_cursor_mono:
  "i \<le> j \<Longrightarrow>
     nextStartTimeRef (deliverAll (take i ds) st) \<le> nextStartTimeRef (deliverAll (take j ds) st)"
proof (induction j)
  case 0
  then show ?case by simp
next
  case (Suc j)
  show ?case
  proof (cases "i = Suc j")
    case True
    then show ?thesis by simp
  next
    case False
    with Suc.prems have "i \<le> j" by simp
    from Suc.IH [OF this] deliverAll_cursor_mono_step [of j ds st] show ?thesis by linarith
  qed
qed

text \<open>Claim C3. For every sequence \<open>ds\<close> of decoded buffers delivered without an
  interruption, from any state of the view, the \<open>i\<close>-th buffer is started at the maximum of
  the cursor \<^verbatim>\<open>nextStartTime\<close> before its delivery and the device time of its delivery, and the
  cursor then stands at that start plus the buffer's duration. So no buffer starts before the
  device time of its delivery, buffer \<open>i + 1\<close> starts at or after the end of buffer \<open>i\<close>, start
  times follow the order of arrival, and the cursor never decreases.\<close>

theorem gapless_schedule:
  assumes "i < length ds"
  shows "start_at (started (deliverAll ds st) ! (length (started st) + i))
           = max (nextStartTimeRef (deliverAll (take i ds) st)) (fst (ds ! i))
    \<and> source_buffer (started (deliverAll ds st) ! (length (started st) + i)) = snd (ds ! i)
    \<and> nextStartTimeRef (deliverAll (take (Suc i) ds) st)
           = start_at (started (deliverAll ds st) ! (length (started st) + i))
               + duration (snd (ds ! i))
    \<and> fst (ds ! i) \<le> start_at (started (deliverAll ds st) ! (length (started st) + i))
    \<and> (Suc i < length ds \<longrightarrow>
          start_at (started (deliverAll ds st) ! (length (started st) + i))
              + duration (source_buffer (started (deliverAll ds st) ! (length (started st) + i)))
            \<le> start_at (started (deliverAll ds st) ! (length (started st) + Suc i)))
    \<and> (\<forall>j. i \<le> j \<and> j < length ds \<longrightarrow>
          start_at (started (deliverAll ds st) ! (length (started st) + i))
            \<le> start_at (started (deliverAll ds st) ! (length (started st) + j)))
    \<and> nextStartTimeRef (deliverAll (take i ds) st)
         \<le> nextStartTimeRef (deliverAll (take (Suc i) ds) st)"
proof -
  let ?c = "\<lambda>k. nextStartTimeRef (deliverAll (take k ds) st)"
  let ?u = "\<lambda>k. started (deliverAll ds st) ! (length (started st) + k)"
  have u: "start_at (?u k) = max (?c k) (fst (ds ! k))" "source_buffer (?u k) = snd (ds ! k)"
    if "k < length ds" for k
    using deliverAll_unit [OF that, of st] by simp_all
  have c: "?c (Suc k) = start_at (?u k) + duration (snd (ds ! k))" if "k < length ds" for k
    using deliverAll_cursor_step [OF that, of st] u(1) [OF that] by simp
  have next_unit: "start_at (?u i) + duration (source_buffer (?u i)) \<le> start_at (?u (Suc i))"
    if "Suc i < length ds"
    using u(1) [OF that] c [OF assms] u(2) [OF assms] by simp
  have order: "start_at (?u i) \<le> start_at (?u j)" if "i \<le> j" "j < length ds" for j
  proof (cases "i = j")
    case True
    then show ?thesis by simp
  next
    case False
    with that have "Suc i \<le> j" by simp
    from deliverAll_cursor_mono [OF this, of ds st]
    have "?c (Suc i) \<le> ?c j" .
    moreover have "start_at (?u i) \<le> ?c (Suc i)"
      using c [OF assms] duration_nonneg [of "snd (ds ! i)"] by linarith
    moreover have "?c j \<le> start_at (?u j)" using u(1) [OF that(2)] by simp
    ultimately show ?thesis by linarith
  qed
  show ?thesis
    using u [OF assms] c [OF assms] next_unit order deliverAll_cursor_mono_step [of i ds st]
    by (simp add: add_ac)
qed

text \<open>C3 at two buffers, the second delivered while the first still plays.\<close>

theorem gapless_schedule_witness:
  "(0::nat) < length [(0 :: real, \<lparr>numberOfChannels = 1, buf_length = 3, sampleRate = 24000,
                         channelData = [[0, 0, 0]]\<rparr>),
                      (1 / 24000, \<lparr>numberOfChannels = 1, buf_length = 2, sampleRate = 24000,
                         channelData = [[0, 0]]\<rparr>)]
   \<and> start_at (started (deliverAll
         [(0, \<lparr>numberOfChannels = 1, buf_length = 3, sampleRate = 24000,
                channelData = [[0, 0, 0]]\<rparr>),
          (1 / 24000, \<lparr>numberOfChannels = 1, buf_length = 2, sampleRate = 24000,
                channelData = [[0, 0]]\<rparr>)] initialView) ! 0) = 0
   \<and> start_at (started (deliverAll
         [(0, \<lparr>numberOfChannels = 1, buf_length = 3, sampleRate = 24000,
                channelData = [[0, 0, 0]]\<rparr>),
          (1 / 24000, \<lparr>numberOfChannels = 1, buf_length = 2, sampleRate = 24000,
                channelData = [[0, 0]]\<rparr>)] initialView) ! 1) = 3 / 24000"
proof -
  let ?ds = "[(0 :: real, \<lparr>numberOfChannels = 1, buf_length = 3, sampleRate = 24000,
                         channelData = [[0, 0, 0]]\<rparr>),
              (1 / 24000, \<lparr>numberOfChannels = 1, buf_length = 2, sampleRate = 24000,
                         channelData = [[0, 0]]\<rparr>)]"
  have h0: "0 < length ?ds" and h1: "1 < length ?ds" by simp_all
  have s: "started initialView = []" "nextStartTimeRef initialView = 0"
    by (simp_all add: initialView_def)
  from gapless_schedule [OF h0, of initialView] gapless_schedule [OF h1, of initialView]
  show ?thesis
    by (simp add: s deliverAll_Nil duration_def)
qed

text \<open>The message handler delivers the decoded buffer of an audio message to the scheduler.\<close>

lemma onMessage_audio:
  assumes "inputTranscription m = None" "outputTranscription m = None"
    "audioData m = Some base64" "base64 \<noteq> []" "outputAudioContextRef st \<noteq> None"
    "decodeInbound base64 = Inr audioBuffer" "\<not> interrupted m"
  shows "onMessage now t m st = deliverBuffer t audioBuffer st"
  using assms by (simp add: onMessage_def playAudio_def deliverBuffer_def)

lemma foldl_stopAndDelete:
  "foldl stopAndDelete st xs =
     st\<lparr>stoppedSources := stoppedSources st @ xs,
        sourcesRef := filter (\<lambda>x. x \<notin> set xs) (sourcesRef st)\<rparr>"
proof (induction xs arbitrary: st)
  case Nil
  show ?case by simp
next
  case (Cons x xs)
  have f: "filter (\<lambda>y. y \<notin> set xs) (removeAll x ys)
      = filter (\<lambda>y. y \<notin> set (x # xs)) ys" for ys :: "nat list"
    by (induction ys) auto
  have "foldl stopAndDelete st (x # xs) = foldl stopAndDelete (stopAndDelete st x) xs"
    by simp
  also have "\<dots> = (stopAndDelete st x)
      \<lparr>stoppedSources := stoppedSources (stopAndDelete st x) @ xs,
       sourcesRef := filter (\<lambda>y. y \<notin> set xs) (sourcesRef (stopAndDelete st x))\<rparr>"
    by (rule Cons.IH)
  also have "\<dots> = st\<lparr>stoppedSources := stoppedSources st @ x # xs,
        sourcesRef := filter (\<lambda>y. y \<notin> set (x # xs)) (sourcesRef st)\<rparr>"
    unfolding stopAndDelete_def by (simp add: f del: set_simps)
  finally show ?case .
qed

lemma handleInterrupted_eq:
  "handleInterrupted st =
     st\<lparr>stoppedSources := stoppedSources st @ sourcesRef st, sourcesRef := [],
        nextStartTimeRef := 0, isAiSpeaking := False\<rparr>"
  by (simp add: handleInterrupted_def foldl_stopAndDelete)

section \<open>What each handler leaves alone\<close>

lemma streamTranscript_world:
  "sentFrames (streamTranscript now r txt st) = sentFrames st"
  "feedbackRequests (streamTranscript now r txt st) = feedbackRequests st"
  "micTrack (streamTranscript now r txt st) = micTrack st"
  "outputAudioContextRef (streamTranscript now r txt st) = outputAudioContextRef st"
  by (simp_all add: streamTranscript_def Let_def)

lemma playAudio_world:
  "sentFrames (fst (playAudio t b st)) = sentFrames st"
  "feedbackRequests (fst (playAudio t b st)) = feedbackRequests st"
  "micTrack (fst (playAudio t b st)) = micTrack st"
  by (simp_all add: playAudio_def startSource_def advanceCursor_def Let_def split: sum.splits)

lemma handleInterrupted_world:
  "sentFrames (handleInterrupted st) = sentFrames st"
  "feedbackRequests (handleInterrupted st) = feedbackRequests st"
  "micTrack (handleInterrupted st) = micTrack st"
  by (simp_all add: handleInterrupted_eq)

lemma onMessage_world:
  "sentFrames (onMessage now t m st) = sentFrames st"
  "feedbackRequests (onMessage now t m st) = feedbackRequests st"
  "micTrack (onMessage now t m st) = micTrack st"
  by (simp_all add: onMessage_def Let_def streamTranscript_world playAudio_world
      handleInterrupted_world split_beta split: option.splits)

lemma connect_world:
  "sentFrames (connect env st) = sentFrames st"
  "feedbackRequests (connect env st) = feedbackRequests st"
  by (simp_all add: connect_def Let_def split: option.splits)

lemma handleDisconnect_world:
  "sentFrames (handleDisconnect g sc now st) = sentFrames st"
  "micTrack (handleDisconnect g sc now st) = micTrack st"
  by (simp_all add: handleDisconnect_def Let_def split: option.splits sum.splits)

lemma small_world:
  "sentFrames (onOpen st) = sentFrames st" "feedbackRequests (onOpen st) = feedbackRequests st"
  "micTrack (onOpen st) = micTrack st"
  "sentFrames (onConnectRejected err st) = sentFrames st"
  "feedbackRequests (onConnectRejected err st) = feedbackRequests st"
  "micTrack (onConnectRejected err st) = micTrack st"
  "sentFrames (onEnded n t st) = sentFrames st" "feedbackRequests (onEnded n t st) = feedbackRequests st"
  "micTrack (onEnded n t st) = micTrack st"
  "sentFrames (pollSpeaking t st) = sentFrames st"
  "feedbackRequests (pollSpeaking t st) = feedbackRequests st"
  "micTrack (pollSpeaking t st) = micTrack st"
  "sentFrames (toggleMute st) = sentFrames st" "feedbackRequests (toggleMute st) = feedbackRequests st"
  "micTrack (toggleMute st) = micTrack st"
  "sentFrames (onClose st) = sentFrames st" "feedbackRequests (onClose st) = feedbackRequests st"
  "micTrack (onClose st) = micTrack st"
  "sentFrames (onError err st) = sentFrames st" "feedbackRequests (onError err st) = feedbackRequests st"
  "micTrack (onError err st) = micTrack st"
  "sentFrames (resetSession st) = sentFrames st" "feedbackRequests (resetSession st) = feedbackRequests st"
  "micTrack (resetSession st) = micTrack st"
  "feedbackRequests (onaudioprocess p d t st) = feedbackRequests st"
  "micTrack (onaudioprocess p d t st) = micTrack st"
  by (simp_all add: onOpen_def onConnectRejected_def onEnded_def pollSpeaking_def toggleMute_def
      onClose_def onError_def resetSession_def onaudioprocess_def Let_def split: promise_state.splits)

lemma sentFrames_live_step:
  "sentFrames (live_step g sc st e) \<noteq> sentFrames st \<Longrightarrow>
     \<not> isMutedRef st \<and> (\<exists>d t. e = AudioProcess Fulfilled d t)"
  by (cases e)
    (auto simp: onMessage_world connect_world handleDisconnect_world small_world
      onaudioprocess_def Let_def split: if_splits promise_state.splits)

lemma feedbackRequests_live_step:
  "feedbackRequests (live_step g sc st e) \<noteq> feedbackRequests st \<Longrightarrow>
     (\<exists>now. e = Disconnect now) \<and> length (conversationRef st) > 2"
  by (cases e)
    (auto simp: onMessage_world connect_world small_world handleDisconnect_def Let_def
      split: if_splits option.splits sum.splits)

lemma micTrack_live_step:
  "micTrack (live_step g sc st e) \<noteq> micTrack st \<Longrightarrow>
     (\<exists>env. e = Connect env) \<and> micTrack (live_step g sc st e) = Some Live"
  by (cases e)
    (auto simp: onMessage_world handleDisconnect_world small_world connect_def Let_def
      split: if_splits option.splits)

section \<open>Properties of the interruption\<close>

lemma decodeInbound_three_frames:
  "decodeInbound ''AAAAAAAA'' =
     Inr \<lparr>numberOfChannels = 1, buf_length = 3, sampleRate = 24000, channelData = [[0, 0, 0]]\<rparr>"
  by (simp add: decodeInbound_def decode_def atob_def strip_padding_def ascii_whitespace_def
      b64_value_def decodeAudioData_def createBuffer_def Let_def)

lemma decodeInbound_odd: "decodeInbound ''QQ=='' = Inl RangeError"
  by (simp add: decodeInbound_def decode_def atob_def strip_padding_def ascii_whitespace_def
      b64_value_def decodeAudioData_def)

lemma streamTranscript_scheduler:
  "sourcesRef (streamTranscript now r txt st) = sourcesRef st"
  "stoppedSources (streamTranscript now r txt st) = stoppedSources st"
  "unhandled (streamTranscript now r txt st) = unhandled st"
  by (simp_all add: streamTranscript_def Let_def)

lemma playAudio_scheduler:
  "stoppedSources (fst (playAudio t b st)) = stoppedSources st"
  "unhandled (fst (playAudio t b st)) = unhandled st"
  "set (sourcesRef st) \<subseteq> set (sourcesRef (fst (playAudio t b st)))"
  by (auto simp: playAudio_def startSource_def advanceCursor_def Let_def split: sum.splits)

text \<open>A message without the marker stops nothing and removes no source from the active set;
  a message with the marker whose audio, if any, decodes is the same message without the marker
  followed by the interruption branch.\<close>

lemma onMessage_unmarked:
  "\<not> interrupted m \<Longrightarrow> stoppedSources (onMessage now t m st) = stoppedSources st"
  "\<not> interrupted m \<Longrightarrow> set (sourcesRef st) \<subseteq> set (sourcesRef (onMessage now t m st))"
proof -
  assume n: "\<not> interrupted m"
  let ?st1 = "case inputTranscription m of
                   Some (Some txt) \<Rightarrow> if txt \<noteq> [] then streamTranscript now USER txt st else st
                 | _ \<Rightarrow> st"
  let ?st2 = "case outputTranscription m of
                   Some (Some txt) \<Rightarrow> if txt \<noteq> [] then streamTranscript now MODEL txt ?st1 else ?st1
                 | _ \<Rightarrow> ?st1"
  have s2: "sourcesRef ?st2 = sourcesRef st" "stoppedSources ?st2 = stoppedSources st"
    by (simp_all add: streamTranscript_scheduler split: option.splits)
  show "stoppedSources (onMessage now t m st) = stoppedSources st"
    using n s2(2) playAudio_scheduler(1) [of t _ ?st2]
    by (simp add: onMessage_def Let_def split_beta split: option.splits)
  show "set (sourcesRef st) \<subseteq> set (sourcesRef (onMessage now t m st))"
    using n s2(1) playAudio_scheduler(3) [of ?st2 t]
    by (simp add: onMessage_def Let_def split_beta split: option.splits)
qed

lemma onMessage_marked:
  assumes "interrupted m"
    and "\<And>b. audioData m = Some b \<Longrightarrow> b \<noteq> [] \<Longrightarrow> outputAudioContextRef st \<noteq> None
            \<Longrightarrow> \<exists>buf. decodeInbound b = Inr buf"
  shows "onMessage now t m st = handleInterrupted (onMessage now t (m\<lparr>interrupted := False\<rparr>) st)"
proof -
  let ?st1 = "case inputTranscription m of
                   Some (Some txt) \<Rightarrow> if txt \<noteq> [] then streamTranscript now USER txt st else st
                 | _ \<Rightarrow> st"
  let ?st2 = "case outputTranscription m of
                   Some (Some txt) \<Rightarrow> if txt \<noteq> [] then streamTranscript now MODEL txt ?st1 else ?st1
                 | _ \<Rightarrow> ?st1"
  have o: "outputAudioContextRef ?st2 = outputAudioContextRef st"
    by (simp add: streamTranscript_world split: option.splits)
  show ?thesis
  proof (cases "audioData m")
    case None
    then show ?thesis using assms(1) by (simp add: onMessage_def Let_def)
  next
    case (Some b)
    show ?thesis
    proof (cases "b \<noteq> [] \<and> outputAudioContextRef st \<noteq> None")
      case False
      then show ?thesis using assms(1) Some o by (auto simp: onMessage_def Let_def)
    next
      case True
      with assms(2) [OF Some] obtain buf where "decodeInbound b = Inr buf" by blast
      then show ?thesis using assms(1) Some True o
        by (simp add: onMessage_def Let_def playAudio_def)
    qed
  qed
qed

text \<open>Claim C4 fails as stated: while one source plays, a message carries the marker together
  with audio of an odd number of bytes. The decoder raises before the interruption branch is
  reached: the source is not stopped, the set is not emptied, the cursor stays ahead and the
  speaking flag set; a buffer delivered right after, at device time \<open>0\<close>, is started at the
  stale offset \<open>3 / 24000\<close>.\<close>

theorem interruption_counterexample:
  "sourcesRef (onMessage 0 0
       \<lparr>inputTranscription = None, outputTranscription = None, audioData = Some ''QQ=='',
        interrupted = True, turnComplete = False, toolCall = None\<rparr>
       (onMessage 0 0
          \<lparr>inputTranscription = None, outputTranscription = None, audioData = Some ''AAAAAAAA'',
           interrupted = False, turnComplete = False, toolCall = None\<rparr>
          (onOpen (connect \<lparr>audioError = None, micError = None\<rparr> initialView)))) = [0]
   \<and> stoppedSources (onMessage 0 0
       \<lparr>inputTranscription = None, outputTranscription = None, audioData = Some ''QQ=='',
        interrupted = True, turnComplete = False, toolCall = None\<rparr>
       (onMessage 0 0
          \<lparr>inputTranscription = None, outputTranscription = None, audioData = Some ''AAAAAAAA'',
           interrupted = False, turnComplete = False, toolCall = None\<rparr>
          (onOpen (connect \<lparr>audioError = None, micError = None\<rparr> initialView)))) = []
   \<and> nextStartTimeRef (onMessage 0 0
       \<lparr>inputTranscription = None, outputTranscription = None, audioData = Some ''QQ=='',
        interrupted = True, turnComplete = False, toolCall = None\<rparr>
       (onMessage 0 0
          \<lparr>inputTranscription = None, outputTranscription = None, audioData = Some ''AAAAAAAA'',
           interrupted = False, turnComplete = False, toolCall = None\<rparr>
          (onOpen (connect \<lparr>audioError = None, micError = None\<rparr> initialView)))) = 3 / 24000
   \<and> isAiSpeaking (onMessage 0 0
       \<lparr>inputTranscription = None, outputTranscription = None, audioData = Some ''QQ=='',
        interrupted = True, turnComplete = False, toolCall = None\<rparr>
       (onMessage 0 0
          \<lparr>inputTranscription = None, outputTranscription = None, audioData = Some ''AAAAAAAA'',
           interrupted = False, turnComplete = False, toolCall = None\<rparr>
          (onOpen (connect \<lparr>audioError = None, micError = None\<rparr> initialView))))
   \<and> unhandled (onMessage 0 0
       \<lparr>inputTranscription = None, outputTranscription = None, audioData = Some ''QQ=='',
        interrupted = True, turnComplete = False, toolCall = None\<rparr>
       (onMessage 0 0
          \<lparr>inputTranscription = None, outputTranscription = None, audioData = Some ''AAAAAAAA'',
           interrupted = False, turnComplete = False, toolCall = None\<rparr>
          (onOpen (connect \<lparr>audioError = None, micError = None\<rparr> initialView)))) = [RangeError]
   \<and> start_at (last (started (deliverBuffer 0
        \<lparr>numberOfChannels = 1, buf_length = 2, sampleRate = 24000, channelData = [[0, 0]]\<rparr>
        (onMessage 0 0
       \<lparr>inputTranscription = None, outputTranscription = None, audioData = Some ''QQ=='',
        interrupted = True, turnComplete = False, toolCall = None\<rparr>
       (onMessage 0 0
          \<lparr>inputTranscription = None, outputTranscription = None, audioData = Some ''AAAAAAAA'',
           interrupted = False, turnComplete = False, toolCall = None\<rparr>
          (onOpen (connect \<lparr>audioError = None, micError = None\<rparr> initialView))))))) = 3 / 24000"
  by (simp add: onMessage_def playAudio_def decodeInbound_three_frames decodeInbound_odd
      startSource_def advanceCursor_def deliverBuffer_def onOpen_def connect_def initialView_def
      duration_def Let_def)

text \<open>Claim C4, amended. On a message that carries the interrupted marker and whose audio, if
  it has any that is played, decodes without an exception, whatever else the message carries,
  the scheduler stops every source of the active set (that of the message's own audio
  included), empties the set, resets \<^verbatim>\<open>nextStartTime\<close> to zero and clears the speaking flag. A
  buffer delivered right after is started at the maximum of zero and the device time: at or
  after the device time, and at the device time itself when that is not negative, whatever
  the cursor was before. The interruption branch alone does the same, and a message that
  carries only the marker is that branch.\<close>

theorem interruption_resets_schedule:
  assumes "interrupted m"
    and "\<forall>b. audioData m = Some b \<and> b \<noteq> [] \<and> outputAudioContextRef st \<noteq> None
            \<longrightarrow> (\<exists>buf. decodeInbound b = Inr buf)"
  shows "onMessage now t m st = handleInterrupted (onMessage now t (m\<lparr>interrupted := False\<rparr>) st)
    \<and> stoppedSources (onMessage now t m st)
         = stoppedSources st @ sourcesRef (onMessage now t (m\<lparr>interrupted := False\<rparr>) st)
    \<and> set (sourcesRef st) \<subseteq> set (stoppedSources (onMessage now t m st))
    \<and> sourcesRef (onMessage now t m st) = []
    \<and> nextStartTimeRef (onMessage now t m st) = 0
    \<and> \<not> isAiSpeaking (onMessage now t m st)
    \<and> started (deliverBuffer t' b' (onMessage now t m st))
         = started (onMessage now t m st)
             @ [\<lparr>source_node = length (started (onMessage now t m st)), start_at = max 0 t',
                 source_buffer = b'\<rparr>]
    \<and> t' \<le> start_at (last (started (deliverBuffer t' b' (onMessage now t m st))))
    \<and> (0 \<le> t' \<longrightarrow> start_at (last (started (deliverBuffer t' b' (onMessage now t m st)))) = t')
    \<and> stoppedSources (handleInterrupted st) = stoppedSources st @ sourcesRef st
    \<and> sourcesRef (handleInterrupted st) = []
    \<and> nextStartTimeRef (handleInterrupted st) = 0
    \<and> \<not> isAiSpeaking (handleInterrupted st)
    \<and> started (deliverBuffer t' b' (handleInterrupted st))
        = started st @ [\<lparr>source_node = length (started st), start_at = max 0 t',
                          source_buffer = b'\<rparr>]
    \<and> (inputTranscription m = None \<and> outputTranscription m = None \<and> audioData m = None
          \<longrightarrow> onMessage now t m st = handleInterrupted st)"
proof -
  let ?u = "onMessage now t (m\<lparr>interrupted := False\<rparr>) st"
  have e: "onMessage now t m st = handleInterrupted ?u"
    by (rule onMessage_marked) (use assms in blast)+
  have u: "stoppedSources ?u = stoppedSources st" "set (sourcesRef st) \<subseteq> set (sourcesRef ?u)"
    by (simp_all add: onMessage_unmarked)
  have only: "inputTranscription m = None \<and> outputTranscription m = None \<and> audioData m = None
          \<longrightarrow> onMessage now t m st = handleInterrupted st"
    using assms(1) by (simp add: onMessage_def)
  have a: "stoppedSources (handleInterrupted ?u) = stoppedSources st @ sourcesRef ?u"
    "sourcesRef (handleInterrupted ?u) = []" "nextStartTimeRef (handleInterrupted ?u) = 0"
    "\<not> isAiSpeaking (handleInterrupted ?u)"
    by (simp_all add: handleInterrupted_eq u(1))
  have b: "set (sourcesRef st) \<subseteq> set (stoppedSources (handleInterrupted ?u))"
    unfolding a(1) using u(2) by auto
  have c: "started (deliverBuffer t' b' (handleInterrupted ?u))
         = started (handleInterrupted ?u)
             @ [\<lparr>source_node = length (started (handleInterrupted ?u)), start_at = max 0 t',
                 source_buffer = b'\<rparr>]"
    by (simp add: deliverBuffer_started a(3))
  have d: "t' \<le> start_at (last (started (deliverBuffer t' b' (handleInterrupted ?u))))"
    "0 \<le> t' \<longrightarrow> start_at (last (started (deliverBuffer t' b' (handleInterrupted ?u)))) = t'"
    unfolding c by simp_all
  have h: "stoppedSources (handleInterrupted st) = stoppedSources st @ sourcesRef st"
    "sourcesRef (handleInterrupted st) = []" "nextStartTimeRef (handleInterrupted st) = 0"
    "\<not> isAiSpeaking (handleInterrupted st)"
    "started (deliverBuffer t' b' (handleInterrupted st))
        = started st @ [\<lparr>source_node = length (started st), start_at = max 0 t',
                          source_buffer = b'\<rparr>]"
    by (simp_all add: handleInterrupted_eq deliverBuffer_started)
  show ?thesis
    unfolding e using a b c d h only [unfolded e] by (intro conjI refl)
qed

text \<open>The amended C4 at a marker that comes with a transcription and three frames of audio
  while one source plays.\<close>

theorem interruption_resets_schedule_witness:
  "interrupted \<lparr>inputTranscription = Some (Some ''Hi''), outputTranscription = None,
        audioData = Some ''AAAAAAAA'', interrupted = True, turnComplete = False, toolCall = None\<rparr>
   \<and> decodeInbound ''AAAAAAAA'' =
       Inr \<lparr>numberOfChannels = 1, buf_length = 3, sampleRate = 24000, channelData = [[0, 0, 0]]\<rparr>
   \<and> stoppedSources (onMessage 7 0
       \<lparr>inputTranscription = Some (Some ''Hi''), outputTranscription = None,
        audioData = Some ''AAAAAAAA'', interrupted = True, turnComplete = False, toolCall = None\<rparr>
       (onMessage 0 0
          \<lparr>inputTranscription = None, outputTranscription = None, audioData = Some ''AAAAAAAA'',
           interrupted = False, turnComplete = False, toolCall = None\<rparr>
          (onOpen (connect \<lparr>audioError = None, micError = None\<rparr> initialView)))) = [0, 1]
   \<and> sourcesRef (onMessage 7 0
       \<lparr>inputTranscription = Some (Some ''Hi''), outputTranscription = None,
        audioData = Some ''AAAAAAAA'', interrupted = True, turnComplete = False, toolCall = None\<rparr>
       (onMessage 0 0
          \<lparr>inputTranscription = None, outputTranscription = None, audioData = Some ''AAAAAAAA'',
           interrupted = False, turnComplete = False, toolCall = None\<rparr>
          (onOpen (connect \<lparr>audioError = None, micError = None\<rparr> initialView)))) = []
   \<and> nextStartTimeRef (onMessage 7 0
       \<lparr>inputTranscription = Some (Some ''Hi''), outputTranscription = None,
        audioData = Some ''AAAAAAAA'', interrupted = True, turnComplete = False, toolCall = None\<rparr>
       (onMessage 0 0
          \<lparr>inputTranscription = None, outputTranscription = None, audioData = Some ''AAAAAAAA'',
           interrupted = False, turnComplete = False, toolCall = None\<rparr>
          (onOpen (connect \<lparr>audioError = None, micError = None\<rparr> initialView)))) = 0
   \<and> start_at (last (started (deliverBuffer 5
        \<lparr>numberOfChannels = 1, buf_length = 2, sampleRate = 24000, channelData = [[0, 0]]\<rparr>
        (onMessage 7 0
       \<lparr>inputTranscription = Some (Some ''Hi''), outputTranscription = None,
        audioData = Some ''AAAAAAAA'', interrupted = True, turnComplete = False, toolCall = None\<rparr>
       (onMessage 0 0
          \<lparr>inputTranscription = None, outputTranscription = None, audioData = Some ''AAAAAAAA'',
           interrupted = False, turnComplete = False, toolCall = None\<rparr>
          (onOpen (connect \<lparr>audioError = None, micError = None\<rparr> initialView))))))) = 5"
proof -
  let ?m = "\<lparr>inputTranscription = Some (Some ''Hi''), outputTranscription = None,
        audioData = Some ''AAAAAAAA'', interrupted = True, turnComplete = False, toolCall = None\<rparr>"
  let ?st = "onMessage 0 0
          \<lparr>inputTranscription = None, outputTranscription = None, audioData = Some ''AAAAAAAA'',
           interrupted = False, turnComplete = False, toolCall = None\<rparr>
          (onOpen (connect \<lparr>audioError = None, micError = None\<rparr> initialView))"
  let ?b = "\<lparr>numberOfChannels = 1, buf_length = 2, sampleRate = 24000, channelData = [[0, 0]]\<rparr>"
  have h1: "interrupted ?m" by simp
  have h2: "\<forall>b. audioData ?m = Some b \<and> b \<noteq> [] \<and> outputAudioContextRef ?st \<noteq> None
            \<longrightarrow> (\<exists>buf. decodeInbound b = Inr buf)"
    by (auto simp: decodeInbound_three_frames)
  note t = interruption_resets_schedule [OF h1 h2, where now = 7 and t = 0 and t' = 5 and b' = ?b]
  have u: "stoppedSources ?st = []"
    "sourcesRef (onMessage 7 0 (?m\<lparr>interrupted := False\<rparr>) ?st) = [0, 1]"
    by (simp_all add: onMessage_def playAudio_def decodeInbound_three_frames startSource_def
        advanceCursor_def streamTranscript_def onOpen_def connect_def initialView_def Let_def)
  have a: "stoppedSources (onMessage 7 0 ?m ?st) = [0, 1]"
    using t [THEN conjunct2, THEN conjunct1] by (simp only: u append_Nil)
  have b: "sourcesRef (onMessage 7 0 ?m ?st) = []"
    using t [THEN conjunct2, THEN conjunct2, THEN conjunct2, THEN conjunct1] .
  have c: "nextStartTimeRef (onMessage 7 0 ?m ?st) = 0"
    using t [THEN conjunct2, THEN conjunct2, THEN conjunct2, THEN conjunct2, THEN conjunct1] .
  have "(0::real) \<le> 5 \<longrightarrow>
      start_at (last (started (deliverBuffer 5 ?b (onMessage 7 0 ?m ?st)))) = 5"
    using t [THEN conjunct2, THEN conjunct2, THEN conjunct2, THEN conjunct2, THEN conjunct2,
        THEN conjunct2, THEN conjunct2, THEN conjunct2, THEN conjunct1] .
  then have d: "start_at (last (started (deliverBuffer 5 ?b (onMessage 7 0 ?m ?st)))) = 5"
    by simp
  show ?thesis using h1 decodeInbound_three_frames a b c d by (intro conjI)
qed

section \<open>Properties of the capture gate\<close>

lemma captureTicks_muted: "isMutedRef st \<Longrightarrow> captureTicks ticks st = st"
proof (induction ticks rule: rev_induct)
  case Nil
  show ?case by (simp add: captureTicks_def)
next
  case (snoc x ticks)
  then show ?case by (cases x) (simp add: captureTicks_def onaudioprocess_def)
qed

text \<open>Claim C9 fails as stated: after an audio message of three frames at device time
  \<open>0\<close> the view is muted and unmuted again; the capture tick at device time \<open>1 / 24000\<close> finds
  the cursor ahead of the device and transmits nothing.\<close>

theorem mute_resume_counterexample:
  "\<not> isMutedRef (toggleMute (toggleMute
       (onMessage 0 0 \<lparr>inputTranscription = None, outputTranscription = None,
            audioData = Some ''AAAAAAAA'', interrupted = False, turnComplete = False,
            toolCall = None\<rparr>
          (onOpen (connect \<lparr>audioError = None, micError = None\<rparr> initialView)))))
   \<and> sentFrames (onaudioprocess Fulfilled [0] (1 / 24000) (toggleMute (toggleMute
       (onMessage 0 0 \<lparr>inputTranscription = None, outputTranscription = None,
            audioData = Some ''AAAAAAAA'', interrupted = False, turnComplete = False,
            toolCall = None\<rparr>
          (onOpen (connect \<lparr>audioError = None, micError = None\<rparr> initialView)))))) = []"
proof -
  have d: "decodeInbound ''AAAAAAAA'' =
     Inr \<lparr>numberOfChannels = 1, buf_length = 3, sampleRate = 24000, channelData = [[0, 0, 0]]\<rparr>"
    by (simp add: decodeInbound_def decode_def atob_def strip_padding_def ascii_whitespace_def
        b64_value_def decodeAudioData_def createBuffer_def Let_def)
  show ?thesis
    by (simp add: onMessage_def playAudio_def d startSource_def advanceCursor_def onOpen_def
        connect_def initialView_def toggleMute_def onaudioprocess_def duration_def Let_def)
qed

text \<open>Claim C9, amended. While the mute flag is set a capture tick changes nothing, any
  number of ticks transmits no frame, and no event at all transmits a frame, whatever the rest
  of the state. Transmission resumes on the first capture tick after the flag is cleared at
  which the half-duplex gate is open (there is no output context, or \<^verbatim>\<open>nextStartTime\<close> is not
  ahead of the output device time), the connection promise being fulfilled: that tick hands the
  encoded block to the transport.\<close>

theorem mute_gate:
  "(isMutedRef st \<longrightarrow>
      onaudioprocess p d t st = st \<and> captureTicks ticks st = st
      \<and> sentFrames (live_step g sc st e) = sentFrames st)
   \<and> (\<not> isMutedRef st \<and> (outputAudioContextRef st = None \<or> nextStartTimeRef st \<le> t) \<longrightarrow>
        sentFrames (onaudioprocess Fulfilled d t st) = sentFrames st @ [createBlob d])
   \<and> (isMuted st \<and> (outputAudioContextRef st = None \<or> nextStartTimeRef st \<le> t) \<longrightarrow>
        sentFrames (onaudioprocess Fulfilled d t (toggleMute st)) = sentFrames st @ [createBlob d])
   \<and> (\<not> isMuted st \<longrightarrow> isMutedRef (toggleMute st))"
proof -
  have "sentFrames (live_step g sc st e) = sentFrames st" if "isMutedRef st"
    using sentFrames_live_step [of g sc st e] that by blast
  then show ?thesis
    by (auto simp: captureTicks_muted onaudioprocess_def toggleMute_def Let_def)
qed

text \<open>The amended C9 at a muted view, and at the same view unmuted.\<close>

theorem mute_gate_witness:
  "isMutedRef (initialView\<lparr>isMuted := True, isMutedRef := True\<rparr>)
   \<and> captureTicks [(Fulfilled, [0], 0), (Fulfilled, [1 / 2], 1)]
        (initialView\<lparr>isMuted := True, isMutedRef := True\<rparr>)
       = initialView\<lparr>isMuted := True, isMutedRef := True\<rparr>
   \<and> sentFrames (onaudioprocess Fulfilled [1 / 2] 1
        (toggleMute (initialView\<lparr>isMuted := True, isMutedRef := True\<rparr>))) = [createBlob [1 / 2]]
   \<and> \<not> isMutedRef initialView
   \<and> sentFrames (onaudioprocess Fulfilled [1 / 2] 1 initialView) = [createBlob [1 / 2]]
   \<and> isMutedRef (toggleMute initialView)"
  using mute_gate [where st = "initialView\<lparr>isMuted := True, isMutedRef := True\<rparr>"
      and ticks = "[(Fulfilled, [0], 0), (Fulfilled, [1 / 2], 1)]" and t = 1 and d = "[1 / 2]"
      and e = Reset]
    mute_gate [where st = initialView and t = 1 and d = "[1 / 2]" and e = Reset]
  by (simp add: initialView_def)


section \<open>Properties of the session lifecycle\<close>

subsection \<open>Dropped connection and explicit stop\<close>

lemma guardian_transcript_frame:
  "g_onClose gv = gv\<lparr>g_isConnected := False,
      g_status := (if isMonitoringRef gv then ''Connection Dropped. Transcript Saved.''
                   else ''Disconnected'')\<rparr>"
  by (simp add: g_onClose_def Let_def)

text \<open>Claim C2. When the close callback of the transport fires and the explicit-stop flag
  is unset, the conversational view changes nothing but the two connection indicators and the
  status: the transcript, its mirror, the feedback, the feedback error and the mute state are
  as before (so a non-empty transcript stays non-empty and unchanged), the status is the
  dropped-connection text and not \<open>Disconnected\<close>, and no transcript is handed to the feedback
  collaborator; with the flag set the status is \<open>Disconnected\<close>. Of all events of the view
  only the explicit stop hands a transcript over, and it does so when the transcript holds more
  than two messages. The monitor view, whose flag \<^verbatim>\<open>isMonitoringRef\<close> is set until an explicit
  stop, likewise keeps transcript and signal and shows the dropped-connection status.\<close>

theorem dropped_connection_keeps_transcript:
  "(\<not> isExplicitlyStoppedRef st \<longrightarrow>
      onClose st = st\<lparr>isAiSpeaking := False, isConnected := False,
                       status := ''Connection Ended (Check Network). You can View Analysis.''\<rparr>
      \<and> conversation (onClose st) = conversation st
      \<and> conversationRef (onClose st) = conversationRef st
      \<and> feedback (onClose st) = feedback st
      \<and> feedbackError (onClose st) = feedbackError st
      \<and> isMuted (onClose st) = isMuted st
      \<and> status (onClose st) \<noteq> ''Disconnected''
      \<and> feedbackRequests (onClose st) = feedbackRequests st)
   \<and> (isExplicitlyStoppedRef st \<longrightarrow> status (onClose st) = ''Disconnected'')
   \<and> (feedbackRequests (live_step g sc st e) \<noteq> feedbackRequests st \<longrightarrow>
        (\<exists>now. e = Disconnect now))
   \<and> isExplicitlyStoppedRef (handleDisconnect g sc now st)
   \<and> (length (conversationRef st) > 2 \<longrightarrow>
        feedbackRequests (handleDisconnect g sc now st)
          = feedbackRequests st @ [transcriptText (conversationRef st)])
   \<and> (isMonitoringRef gv \<longrightarrow>
        g_onClose gv = gv\<lparr>g_isConnected := False,
                          g_status := ''Connection Dropped. Transcript Saved.''\<rparr>
        \<and> transcript (g_onClose gv) = transcript gv
        \<and> guardianSignal (g_onClose gv) = guardianSignal gv
        \<and> isMonitoringRef (g_onClose gv)
        \<and> g_status (g_onClose gv) \<noteq> ''Disconnected'')
   \<and> (\<not> isMonitoringRef gv \<longrightarrow> g_status (g_onClose gv) = ''Disconnected'')"
proof -
  have hand: "feedbackRequests (live_step g sc st e) \<noteq> feedbackRequests st \<longrightarrow>
        (\<exists>now. e = Disconnect now)"
    using feedbackRequests_live_step [of g sc st e] by blast
  have stop: "isExplicitlyStoppedRef (handleDisconnect g sc now st)"
    by (simp add: handleDisconnect_def Let_def split: option.splits sum.splits)
  have req: "length (conversationRef st) > 2 \<longrightarrow>
        feedbackRequests (handleDisconnect g sc now st)
          = feedbackRequests st @ [transcriptText (conversationRef st)]"
    by (simp add: handleDisconnect_def Let_def split: option.splits sum.splits)
  have live: "\<not> isExplicitlyStoppedRef st \<longrightarrow>
      onClose st = st\<lparr>isAiSpeaking := False, isConnected := False,
                       status := ''Connection Ended (Check Network). You can View Analysis.''\<rparr>"
    "isExplicitlyStoppedRef st \<longrightarrow> status (onClose st) = ''Disconnected''"
    by (simp_all add: onClose_def Let_def)
  show ?thesis
    using hand stop req live by (simp add: guardian_transcript_frame)
qed

text \<open>C2 at a conversation of two messages and at a monitor transcript of one entry.\<close>

theorem dropped_connection_keeps_transcript_witness:
  "\<not> isExplicitlyStoppedRef
        (streamTranscript 4 MODEL ''Hello'' (streamTranscript 3 USER ''Hi'' initialView))
   \<and> map msg_text (conversation (onClose
        (streamTranscript 4 MODEL ''Hello'' (streamTranscript 3 USER ''Hi'' initialView))))
       = [''Hi'', ''Hello'']
   \<and> status (onClose
        (streamTranscript 4 MODEL ''Hello'' (streamTranscript 3 USER ''Hi'' initialView)))
       = ''Connection Ended (Check Network). You can View Analysis.''
   \<and> feedbackRequests (onClose
        (streamTranscript 4 MODEL ''Hello'' (streamTranscript 3 USER ''Hi'' initialView))) = []
   \<and> isMonitoringRef (g_onTranscript ''user'' ''Hi'' ''10:00''
        (startMonitoring \<lparr>audioError = None, micError = None\<rparr> initialGuardian))
   \<and> map entry_text (transcript (g_onClose (g_onTranscript ''user'' ''Hi'' ''10:00''
        (startMonitoring \<lparr>audioError = None, micError = None\<rparr> initialGuardian)))) = [''Hi'']
   \<and> g_status (g_onClose (g_onTranscript ''user'' ''Hi'' ''10:00''
        (startMonitoring \<lparr>audioError = None, micError = None\<rparr> initialGuardian)))
       = ''Connection Dropped. Transcript Saved.''"
  using dropped_connection_keeps_transcript
    [where st = "streamTranscript 4 MODEL ''Hello'' (streamTranscript 3 USER ''Hi'' initialView)"
       and gv = "g_onTranscript ''user'' ''Hi'' ''10:00''
        (startMonitoring \<lparr>audioError = None, micError = None\<rparr> initialGuardian)"]
  by (simp add: streamTranscript_def updateStreamingTranscript_def initialView_def Let_def
      g_onTranscript_def startMonitoring_def initialGuardian_def)

subsection \<open>Release of resources\<close>

lemma close_quietly_eq: "close_quietly r = map_option (\<lambda>c. Closed) r"
proof (cases r)
  case None
  then show ?thesis by (simp add: close_quietly_def)
next
  case (Some c)
  then show ?thesis by (cases c) (simp_all add: close_quietly_def)
qed


lemma handleDisconnect_resources:
  "inputAudioContextRef (handleDisconnect g sc now st) = close_quietly (inputAudioContextRef st)"
  "outputAudioContextRef (handleDisconnect g sc now st) = close_quietly (outputAudioContextRef st)"
  "sessionRef (handleDisconnect g sc now st) = None"
  "transportCloses (handleDisconnect g sc now st)
     = (if sessionRef st = None then transportCloses st else Suc (transportCloses st))"
  "unhandled (handleDisconnect g sc now st) = unhandled st"
  "conversationRef (handleDisconnect g sc now st) = conversationRef st"
  "isExplicitlyStoppedRef (handleDisconnect g sc now st)"
  by (simp_all add: handleDisconnect_def Let_def split: option.splits sum.splits)

lemma stopMonitoring_fields:
  "g_inputAudioContextRef (stopMonitoring gv) = map_option (\<lambda>c. Closed) (g_inputAudioContextRef gv)"
  "g_micTrack (stopMonitoring gv) = g_micTrack gv"
  "g_sessionRef (stopMonitoring gv) = None"
  "\<not> isMonitoringRef (stopMonitoring gv)"
  "g_transportCloses (stopMonitoring gv)
     = (if g_sessionRef gv = None then g_transportCloses gv else Suc (g_transportCloses gv))"
proof -
  have c: "g_inputAudioContextRef gv = None \<or> g_inputAudioContextRef gv = Some Running
      \<or> g_inputAudioContextRef gv = Some Closed"
    by (cases "g_inputAudioContextRef gv") (auto intro: ContextState.exhaust)
  have s: "g_sessionRef gv = None \<or> g_sessionRef gv = Some ()"
    by (cases "g_sessionRef gv") auto
  show
    "g_inputAudioContextRef (stopMonitoring gv) = map_option (\<lambda>c. Closed) (g_inputAudioContextRef gv)"
    "g_micTrack (stopMonitoring gv) = g_micTrack gv"
    "g_sessionRef (stopMonitoring gv) = None"
    "\<not> isMonitoringRef (stopMonitoring gv)"
    "g_transportCloses (stopMonitoring gv)
       = (if g_sessionRef gv = None then g_transportCloses gv else Suc (g_transportCloses gv))"
    using c s by (auto simp: stopMonitoring_def Let_def)
qed

lemma g_micTrack_step:
  "g_micTrack (guardian_step gv e) \<noteq> g_micTrack gv \<Longrightarrow>
     (\<exists>env. e = StartMonitoring env) \<and> g_micTrack (guardian_step gv e) = Some Live"
  by (cases e)
    (auto simp: stopMonitoring_fields startMonitoring_def g_onOpen_def g_onaudioprocess_def
      g_onSignal_def g_onTranscript_def g_onClose_def g_onError_def Let_def
      split: if_splits option.splits promise_state.splits)

text \<open>Claim C7 fails as stated: after an explicit stop of an open session the microphone
  track is still live, in both views; and when \<^verbatim>\<open>getUserMedia\<close> is refused during connect, the
  two audio contexts made before it stay open.\<close>

theorem teardown_counterexample:
  "micTrack (handleDisconnect (\<lambda>transcript goal scenario. Inl ''unavailable'')
       \<lparr>scenario_id = ''casual'', description = ''Low stakes.'', coachingGoal = ''Flow''\<rparr> 0
       (onOpen (connect \<lparr>audioError = None, micError = None\<rparr> initialView))) = Some Live
   \<and> g_micTrack (stopMonitoring (g_onOpen
        (startMonitoring \<lparr>audioError = None, micError = None\<rparr> initialGuardian))) = Some Live
   \<and> inputAudioContextRef
        (connect \<lparr>audioError = None, micError = Some ''Permission denied''\<rparr> initialView)
       = Some Running
   \<and> outputAudioContextRef
        (connect \<lparr>audioError = None, micError = Some ''Permission denied''\<rparr> initialView)
       = Some Running"
  by (simp add: handleDisconnect_world small_world stopMonitoring_fields connect_def
      startMonitoring_def g_onOpen_def initialView_def initialGuardian_def Let_def)

text \<open>Claim C7, amended. On an explicit stop the input and the output audio context that the
  conversational view holds are closed, and so is the input context of the monitor view; the
  microphone track is left as it is. No event of either view stops the microphone track: the
  only change of the track is its acquisition by connect.\<close>

theorem explicit_stop_closes_contexts:
  "inputAudioContextRef (handleDisconnect g sc now st)
     = map_option (\<lambda>c. Closed) (inputAudioContextRef st)
   \<and> outputAudioContextRef (handleDisconnect g sc now st)
     = map_option (\<lambda>c. Closed) (outputAudioContextRef st)
   \<and> g_inputAudioContextRef (stopMonitoring gv)
     = map_option (\<lambda>c. Closed) (g_inputAudioContextRef gv)
   \<and> micTrack (handleDisconnect g sc now st) = micTrack st
   \<and> g_micTrack (stopMonitoring gv) = g_micTrack gv
   \<and> (micTrack (live_step g sc st e) \<noteq> micTrack st \<longrightarrow>
        (\<exists>env. e = Connect env) \<and> micTrack (live_step g sc st e) = Some Live)
   \<and> (g_micTrack (guardian_step gv ge) \<noteq> g_micTrack gv \<longrightarrow>
        (\<exists>env. ge = StartMonitoring env) \<and> g_micTrack (guardian_step gv ge) = Some Live)"
  using micTrack_live_step [of g sc st e] g_micTrack_step [of gv ge]
  by (auto simp: handleDisconnect_resources close_quietly_eq handleDisconnect_world
      stopMonitoring_fields)

text \<open>The amended C7 at an open session of each view.\<close>

theorem explicit_stop_closes_contexts_witness:
  "inputAudioContextRef (handleDisconnect (\<lambda>transcript goal scenario. Inl ''unavailable'')
       \<lparr>scenario_id = ''casual'', description = ''Low stakes.'', coachingGoal = ''Flow''\<rparr> 0
       (onOpen (connect \<lparr>audioError = None, micError = None\<rparr> initialView))) = Some Closed
   \<and> outputAudioContextRef (handleDisconnect (\<lambda>transcript goal scenario. Inl ''unavailable'')
       \<lparr>scenario_id = ''casual'', description = ''Low stakes.'', coachingGoal = ''Flow''\<rparr> 0
       (onOpen (connect \<lparr>audioError = None, micError = None\<rparr> initialView))) = Some Closed
   \<and> g_inputAudioContextRef (stopMonitoring (g_onOpen
        (startMonitoring \<lparr>audioError = None, micError = None\<rparr> initialGuardian))) = Some Closed
   \<and> micTrack (live_step (\<lambda>transcript goal scenario. Inl ''unavailable'')
        \<lparr>scenario_id = ''casual'', description = ''Low stakes.'', coachingGoal = ''Flow''\<rparr>
        initialView (Connect \<lparr>audioError = None, micError = None\<rparr>)) = Some Live
   \<and> micTrack initialView = None"
proof -
  let ?g = "\<lambda>transcript goal scenario. Inl ''unavailable'' :: string + PracticeFeedback"
  let ?sc = "\<lparr>scenario_id = ''casual'', description = ''Low stakes.'', coachingGoal = ''Flow''\<rparr>"
  let ?st = "onOpen (connect \<lparr>audioError = None, micError = None\<rparr> initialView)"
  let ?gv = "g_onOpen (startMonitoring \<lparr>audioError = None, micError = None\<rparr> initialGuardian)"
  note t = explicit_stop_closes_contexts [where g = ?g and sc = ?sc and now = 0 and st = ?st
      and gv = ?gv]
  have refs: "inputAudioContextRef ?st = Some Running" "outputAudioContextRef ?st = Some Running"
    "g_inputAudioContextRef ?gv = Some Running"
    by (simp_all add: connect_def onOpen_def startMonitoring_def g_onOpen_def initialView_def
        initialGuardian_def Let_def)
  have a: "inputAudioContextRef (handleDisconnect ?g ?sc 0 ?st) = Some Closed"
    using t [THEN conjunct1] by (simp only: refs option.map)
  have b: "outputAudioContextRef (handleDisconnect ?g ?sc 0 ?st) = Some Closed"
    using t [THEN conjunct2, THEN conjunct1] by (simp only: refs option.map)
  have c: "g_inputAudioContextRef (stopMonitoring ?gv) = Some Closed"
    using t [THEN conjunct2, THEN conjunct2, THEN conjunct1] by (simp only: refs option.map)
  have d: "micTrack (live_step ?g ?sc initialView (Connect \<lparr>audioError = None, micError = None\<rparr>))
      = Some Live" "micTrack initialView = None"
    by (simp_all add: connect_def initialView_def Let_def)
  show ?thesis using a b c d by simp
qed

subsection \<open>Stopping twice\<close>









section \<open>Properties of the tool-call handler\<close>

lemma appendTranscriptions_frame:
  "toolResponses (appendTranscriptions m gs) = toolResponses gs"
  by (simp add: appendTranscriptions_def Let_def split: option.splits)

lemma flushTurn_frame:
  "toolResponses (fst (flushTurn cb gs)) = toolResponses gs"
  by (simp add: flushTurn_def Let_def split_beta split: option.splits prod.splits)

text \<open>Whatever the send does, the acknowledgement is one more call of it. A send that throws
  or returns nothing is not logged; only the rejection of a returned promise is.\<close>

lemma acknowledge_fields:
  "toolResponses (acknowledge send fc gs) =
     toolResponses gs @ [\<lparr>fr_id = fc_id fc, fr_name = fc_name fc, fr_result = ''acknowledged''\<rparr>]"
  "gs_console (acknowledge send fc gs) =
     gs_console gs @ (case send (length (toolResponses gs)) of
                        ReturnsPromise (Some e) \<Rightarrow> [''Tool response send error''] | _ \<Rightarrow> [])"
  "gs_unhandled (acknowledge send fc gs) =
     gs_unhandled gs @ (case send (length (toolResponses gs)) of
                          SendThrows e \<Rightarrow> [e] | ReturnsUndefined \<Rightarrow> [TypeError] | _ \<Rightarrow> [])"
  by (simp_all add: acknowledge_def Let_def split: send_outcome.splits option.splits)

lemma handleToolCalls_acks:
  "handleToolCalls cb send calls gs = (gs', None) \<Longrightarrow>
     toolResponses gs' = toolResponses gs
        @ map (\<lambda>fc. \<lparr>fr_id = fc_id fc, fr_name = fc_name fc, fr_result = ''acknowledged''\<rparr>)
            (filter (\<lambda>fc. fc_name fc = ''update_guardian_status'') calls)"
proof (induction calls arbitrary: gs)
  case Nil
  then show ?case by simp
next
  case (Cons fc calls)
  show ?case
  proof (cases "fc_name fc = ''update_guardian_status''")
    case False
    with Cons.prems have "handleToolCalls cb send calls gs = (gs', None)" by simp
    from Cons.IH [OF this] False show ?thesis by simp
  next
    case True
    obtain a r where c: "cb (fc_args fc) (app gs) = (a, r)" by (cases "cb (fc_args fc) (app gs)")
    with Cons.prems True have r: "r = None" by (cases r) auto
    with Cons.prems True c have
      "handleToolCalls cb send calls (acknowledge send fc (gs\<lparr>app := a\<rparr>)) = (gs', None)"
      by simp
    from Cons.IH [OF this] True show ?thesis by (simp add: acknowledge_fields)
  qed
qed

text \<open>Claim C1 fails as stated: when the application callback throws on a call, the handler
  ends with that exception and no acknowledgement for the call is sent.\<close>

theorem tool_ack_counterexample:
  "guardian_onmessage (\<lambda>sig a. (a, Some (Thrown ''callback failed''))) (\<lambda>r txt a. (a, None))
      (\<lambda>n. ReturnsUndefined)
      \<lparr>inputTranscription = None, outputTranscription = None, audioData = None,
       interrupted = False, turnComplete = False,
       toolCall = Some [\<lparr>fc_id = ''call-1'', fc_name = ''update_guardian_status'',
          fc_args = \<lparr>signal = Caution, reason = ''tension'', gentle_hint = None,
             confidence_note = None, risk_trend = Rising, suggested_action = None\<rparr>\<rparr>]\<rparr>
      \<lparr>currentInputTrans = [], currentOutputTrans = [], app = (), toolResponses = [],
       gs_console = [], gs_unhandled = []\<rparr>
    = (\<lparr>currentInputTrans = [], currentOutputTrans = [], app = (), toolResponses = [],
        gs_console = [], gs_unhandled = []\<rparr>, Some (Thrown ''callback failed''))"
  by (simp add: guardian_onmessage_def appendTranscriptions_def Let_def)

text \<open>Claim C1, amended. When the handler of a message ends without an exception of the
  application callbacks, the acknowledgements sent are, in the order of the calls, exactly one
  for each call named \<open>update_guardian_status\<close>, each carrying the identifier and the name of
  its call. This holds whatever the sends do: a send that fails is not repeated and does not
  keep the later calls from being acknowledged.\<close>

theorem tool_calls_acknowledged:
  assumes "guardian_onmessage onStatusUpdate onTranscript sendToolResponse message gs = (gs', None)"
  shows "toolResponses gs' = toolResponses gs
        @ map (\<lambda>fc. \<lparr>fr_id = fc_id fc, fr_name = fc_name fc, fr_result = ''acknowledged''\<rparr>)
            (filter (\<lambda>fc. fc_name fc = ''update_guardian_status'')
               (case toolCall message of None \<Rightarrow> [] | Some functionCalls \<Rightarrow> functionCalls))"
proof -
  let ?gs1 = "appendTranscriptions message gs"
  obtain gs2 r where f: "(if turnComplete message then flushTurn onTranscript ?gs1 else (?gs1, None))
      = (gs2, r)"
    by (cases "if turnComplete message then flushTurn onTranscript ?gs1 else (?gs1, None)")
  have r: "r = None" using assms f by (cases r) (simp_all add: guardian_onmessage_def Let_def)
  have gs2: "toolResponses gs2 = toolResponses gs"
  proof -
    have "gs2 = fst (if turnComplete message then flushTurn onTranscript ?gs1 else (?gs1, None))"
      using f by simp
    then show ?thesis by (simp add: flushTurn_frame appendTranscriptions_frame)
  qed
  show ?thesis
  proof (cases "toolCall message")
    case None
    with assms f r have "gs' = gs2" by (simp add: guardian_onmessage_def Let_def)
    with None gs2 show ?thesis by simp
  next
    case (Some functionCalls)
    with assms f r have h: "handleToolCalls onStatusUpdate sendToolResponse functionCalls gs2 = (gs', None)"
      by (simp add: guardian_onmessage_def Let_def)
    from handleToolCalls_acks [OF h] Some gs2 show ?thesis by simp
  qed
qed

text \<open>The amended C1 at a message of three calls, the second with another name, where the
  first send throws and the next returns nothing: both calls are acknowledged once, nothing is
  logged, and two rejections stay unhandled.\<close>

theorem tool_calls_acknowledged_witness:
  "guardian_onmessage (\<lambda>sig a. (sig # a, None)) (\<lambda>r txt a. (a, None))
      (\<lambda>n. if n = 0 then SendThrows (Thrown ''closed'') else ReturnsUndefined)
      \<lparr>inputTranscription = None, outputTranscription = None, audioData = None,
       interrupted = False, turnComplete = False,
       toolCall = Some
         [\<lparr>fc_id = ''call-1'', fc_name = ''update_guardian_status'',
            fc_args = \<lparr>signal = Caution, reason = ''tension'', gentle_hint = None,
               confidence_note = None, risk_trend = Rising, suggested_action = None\<rparr>\<rparr>,
          \<lparr>fc_id = ''call-2'', fc_name = ''other_tool'',
            fc_args = \<lparr>signal = Mild, reason = ''fine'', gentle_hint = None,
               confidence_note = None, risk_trend = Stable, suggested_action = None\<rparr>\<rparr>,
          \<lparr>fc_id = ''call-3'', fc_name = ''update_guardian_status'',
            fc_args = \<lparr>signal = Mild, reason = ''fine'', gentle_hint = None,
               confidence_note = None, risk_trend = Easing, suggested_action = None\<rparr>\<rparr>]\<rparr>
      \<lparr>currentInputTrans = [], currentOutputTrans = [], app = [], toolResponses = [],
       gs_console = [], gs_unhandled = []\<rparr>
    = (\<lparr>currentInputTrans = [], currentOutputTrans = [],
        app = [\<lparr>signal = Mild, reason = ''fine'', gentle_hint = None,
                 confidence_note = None, risk_trend = Easing, suggested_action = None\<rparr>,
               \<lparr>signal = Caution, reason = ''tension'', gentle_hint = None,
                 confidence_note = None, risk_trend = Rising, suggested_action = None\<rparr>],
        toolResponses =
          [\<lparr>fr_id = ''call-1'', fr_name = ''update_guardian_status'', fr_result = ''acknowledged''\<rparr>,
           \<lparr>fr_id = ''call-3'', fr_name = ''update_guardian_status'', fr_result = ''acknowledged''\<rparr>],
        gs_console = [], gs_unhandled = [Thrown ''closed'', TypeError]\<rparr>, None)"
proof -
  let ?m = "\<lparr>inputTranscription = None, outputTranscription = None, audioData = None,
       interrupted = False, turnComplete = False,
       toolCall = Some
         [\<lparr>fc_id = ''call-1'', fc_name = ''update_guardian_status'',
            fc_args = \<lparr>signal = Caution, reason = ''tension'', gentle_hint = None,
               confidence_note = None, risk_trend = Rising, suggested_action = None\<rparr>\<rparr>,
          \<lparr>fc_id = ''call-2'', fc_name = ''other_tool'',
            fc_args = \<lparr>signal = Mild, reason = ''fine'', gentle_hint = None,
               confidence_note = None, risk_trend = Stable, suggested_action = None\<rparr>\<rparr>,
          \<lparr>fc_id = ''call-3'', fc_name = ''update_guardian_status'',
            fc_args = \<lparr>signal = Mild, reason = ''fine'', gentle_hint = None,
               confidence_note = None, risk_trend = Easing, suggested_action = None\<rparr>\<rparr>]\<rparr>"
  let ?gs = "\<lparr>currentInputTrans = [], currentOutputTrans = [], app = ([] :: GuardianSignal list),
       toolResponses = [], gs_console = [], gs_unhandled = []\<rparr>"
  let ?res = "guardian_onmessage (\<lambda>sig a. (sig # a, None)) (\<lambda>r txt a. (a, None))
      (\<lambda>n. if n = 0 then SendThrows (Thrown ''closed'') else ReturnsUndefined) ?m ?gs"
  have run: "snd ?res = None"
    and rest: "currentInputTrans (fst ?res) = []" "currentOutputTrans (fst ?res) = []"
      "app (fst ?res) = [\<lparr>signal = Mild, reason = ''fine'', gentle_hint = None,
                 confidence_note = None, risk_trend = Easing, suggested_action = None\<rparr>,
               \<lparr>signal = Caution, reason = ''tension'', gentle_hint = None,
                 confidence_note = None, risk_trend = Rising, suggested_action = None\<rparr>]"
      "gs_console (fst ?res) = []" "gs_unhandled (fst ?res) = [Thrown ''closed'', TypeError]"
    by (simp_all add: guardian_onmessage_def appendTranscriptions_def acknowledge_def Let_def)
  then have h: "?res = (fst ?res, None)" by (simp add: prod_eq_iff)
  from tool_calls_acknowledged [OF h]
  have t: "toolResponses (fst ?res) =
          [\<lparr>fr_id = ''call-1'', fr_name = ''update_guardian_status'', fr_result = ''acknowledged''\<rparr>,
           \<lparr>fr_id = ''call-3'', fr_name = ''update_guardian_status'', fr_result = ''acknowledged''\<rparr>]"
    by simp
  have "fst ?res = \<lparr>currentInputTrans = [], currentOutputTrans = [],
        app = [\<lparr>signal = Mild, reason = ''fine'', gentle_hint = None,
                 confidence_note = None, risk_trend = Easing, suggested_action = None\<rparr>,
               \<lparr>signal = Caution, reason = ''tension'', gentle_hint = None,
                 confidence_note = None, risk_trend = Rising, suggested_action = None\<rparr>],
        toolResponses =
          [\<lparr>fr_id = ''call-1'', fr_name = ''update_guardian_status'', fr_result = ''acknowledged''\<rparr>,
           \<lparr>fr_id = ''call-3'', fr_name = ''update_guardian_status'', fr_result = ''acknowledged''\<rparr>],
        gs_console = [], gs_unhandled = [Thrown ''closed'', TypeError]\<rparr>"
    by (rule GuardianSession.equality) (simp_all add: rest t)
  with run show ?thesis by (simp add: prod_eq_iff)
qed

end
